theory Spec2Isabelle
  imports Complex_Main
begin

section \<open>JavaScript values used by the translation engine\<close>

text \<open>
  A JavaScript string is a sequence of UTF-16 code units.  The code under study inspects
  code units beyond Latin-1 (the Devanagari and Kannada blocks), so a string is modelled as
  the list of its code units, each a natural number.  \<open>js\<close> turns an ASCII literal of the
  theory into such a string.
\<close>

type_synonym jsstring = "nat list"

definition js :: "string \<Rightarrow> jsstring" where
  "js s = map of_char s"

text \<open>\<open>String.prototype.startsWith\<close> and \<open>String.prototype.includes\<close>.\<close>

fun startsWith :: "jsstring \<Rightarrow> jsstring \<Rightarrow> bool" where
  "startsWith s [] = True"
| "startsWith [] (p # ps) = False"
| "startsWith (c # cs) (p # ps) = (c = p \<and> startsWith cs ps)"

fun str_includes :: "jsstring \<Rightarrow> jsstring \<Rightarrow> bool" where
  "str_includes [] sub = (sub = [])"
| "str_includes (c # cs) sub = (startsWith (c # cs) sub \<or> str_includes cs sub)"

text \<open>
  A JavaScript \<open>Map\<close> keeps its entries in insertion order: \<open>set\<close> on a present key
  replaces the value in place, \<open>set\<close> on a new key appends, \<open>delete\<close> removes the entry.
  It is modelled as an association list whose keys are pairwise distinct.
\<close>

type_synonym ('k, 'v) jsmap = "('k \<times> 'v) list"

fun Map_set :: "'k \<Rightarrow> 'v \<Rightarrow> ('k, 'v) jsmap \<Rightarrow> ('k, 'v) jsmap" where
  "Map_set k v [] = [(k, v)]"
| "Map_set k v (p # ps) = (if fst p = k then (k, v) # ps else p # Map_set k v ps)"

definition Map_get :: "('k, 'v) jsmap \<Rightarrow> 'k \<Rightarrow> 'v option" where
  "Map_get m k = map_of m k"



definition Map_values :: "('k, 'v) jsmap \<Rightarrow> 'v list" where
  "Map_values m = map snd m"

definition Map_keys :: "('k, 'v) jsmap \<Rightarrow> 'k list" where
  "Map_keys m = map fst m"

section \<open>Data model (\<open>lib/types/translation-group.ts\<close>, \<open>lib/providers/base.ts\<close>)\<close>

datatype Provider = openai | anthropic | google

record TranslationEntry =
  key :: jsstring
  source :: jsstring
  english :: jsstring
  columns :: "(jsstring, jsstring) jsmap"

record TranslationGroup =
  group_id :: jsstring
  group_name :: jsstring
  provider :: Provider
  model :: jsstring
  systemPrompt :: jsstring
  userPrompt :: jsstring
  columnName :: jsstring

record TranslateResponse =
  translation :: jsstring
  category :: jsstring
  reasoning :: jsstring

record MergedResults =
  entries :: "TranslationEntry list"
  headers :: "jsstring list"

text \<open>
  A thrown value: an instance of \<open>Error\<close> carrying its message, or any other value
  (for which \<open>error instanceof Error\<close> is false).
\<close>

datatype js_error = Error jsstring | NonError

text \<open>\<open>error instanceof Error ? error.message : 'Unknown error'\<close>.\<close>

definition errorMessage :: "js_error \<Rightarrow> jsstring" where
  "errorMessage e = (case e of Error message \<Rightarrow> message | NonError \<Rightarrow> js ''Unknown error'')"

section \<open>Strings and regular expressions of the runtime\<close>

text \<open>
  \<open>String.prototype.trim\<close> and the class \<open>\s\<close> take the same code units for white
  space: TAB, LF, VT, FF, CR, SP, NBSP, U+1680, U+2000 to U+200A, U+2028, U+2029, U+202F,
  U+205F, U+3000 and U+FEFF.
\<close>

definition isWhiteSpace :: "nat \<Rightarrow> bool" where
  "isWhiteSpace c =
     (c \<in> {9, 10, 11, 12, 13, 32, 160, 5760, 8232, 8233, 8239, 8287, 12288, 65279}
      \<or> (8192 \<le> c \<and> c \<le> 8202))"

definition trimStart :: "jsstring \<Rightarrow> jsstring" where
  "trimStart s = dropWhile isWhiteSpace s"

definition trimEnd :: "jsstring \<Rightarrow> jsstring" where
  "trimEnd s = rev (dropWhile isWhiteSpace (rev s))"

definition trim :: "jsstring \<Rightarrow> jsstring" where
  "trim s = trimEnd (trimStart s)"

text \<open>\<open>Array.prototype.join\<close> and \<open>String.prototype.split\<close> with a separator of one
  code unit.\<close>

fun join :: "jsstring \<Rightarrow> jsstring list \<Rightarrow> jsstring" where
  "join sep [] = []"
| "join sep [x] = x"
| "join sep (x # y # ys) = x @ sep @ join sep (y # ys)"

fun splitAcc :: "nat \<Rightarrow> jsstring \<Rightarrow> jsstring \<Rightarrow> jsstring list" where
  "splitAcc sep current [] = [current]"
| "splitAcc sep current (c # cs) =
     (if c = sep then current # splitAcc sep [] cs else splitAcc sep (current @ [c]) cs)"

definition split :: "nat \<Rightarrow> jsstring \<Rightarrow> jsstring list" where
  "split sep s = splitAcc sep [] s"

text \<open>
  \<open>String.prototype.toLowerCase\<close> on the code units the code meets: the ASCII and
  Latin-1 capitals, U+0130 (which becomes two code units) and the Kelvin and Angstrom signs;
  any other code unit is left as it is.
\<close>

definition lowerUnit :: "nat \<Rightarrow> jsstring" where
  "lowerUnit c =
     (if 65 \<le> c \<and> c \<le> 90 then [c + 32]
      else if 192 \<le> c \<and> c \<le> 222 \<and> c \<noteq> 215 then [c + 32]
      else if c = 304 then [105, 775]
      else if c = 8490 then [107]
      else if c = 8491 then [229]
      else [c])"

definition toLowerCase :: "jsstring \<Rightarrow> jsstring" where
  "toLowerCase s = concat (map lowerUnit s)"

text \<open>
  Regular expressions.  A character class is a set of code units; \<open>Dot\<close> is every code
  unit but the line terminators.  Under the flag \<open>i\<close> two code units match when their
  canonical forms agree; for the ASCII and Latin-1 letters, the only letters the patterns
  of the code name, the canonical form is the capital.
\<close>

datatype cls =
    Chars "nat list"
  | Between nat nat
  | Dot
  | Space
  | Either cls cls
  | Outside cls

definition isLineTerminator :: "nat \<Rightarrow> bool" where
  "isLineTerminator c = (c = 10 \<or> c = 13 \<or> c = 8232 \<or> c = 8233)"

definition isWordChar :: "nat \<Rightarrow> bool" where
  "isWordChar c = ((97 \<le> c \<and> c \<le> 122) \<or> (65 \<le> c \<and> c \<le> 90) \<or> (48 \<le> c \<and> c \<le> 57) \<or> c = 95)"

definition canonical :: "nat \<Rightarrow> nat" where
  "canonical c =
     (if 97 \<le> c \<and> c \<le> 122 then c - 32
      else if 224 \<le> c \<and> c \<le> 254 \<and> c \<noteq> 247 then c - 32
      else c)"

definition uncanonical :: "nat \<Rightarrow> nat" where
  "uncanonical c =
     (if 65 \<le> c \<and> c \<le> 90 then c + 32
      else if 192 \<le> c \<and> c \<le> 222 \<and> c \<noteq> 215 then c + 32
      else c)"

primrec inClass :: "cls \<Rightarrow> nat \<Rightarrow> bool" where
  "inClass (Chars cs) c = (c \<in> set cs)"
| "inClass (Between lo hi) c = (lo \<le> c \<and> c \<le> hi)"
| "inClass Dot c = (\<not> isLineTerminator c)"
| "inClass Space c = isWhiteSpace c"
| "inClass (Either a b) c = (inClass a c \<or> inClass b c)"
| "inClass (Outside a) c = (\<not> inClass a c)"

definition inClassI :: "cls \<Rightarrow> nat \<Rightarrow> bool" where
  "inClassI k c = (inClass k c \<or> inClass k (canonical c) \<or> inClass k (uncanonical c))"

text \<open>
  The patterns: literal text (exact, or under flag \<open>i\<close>), a class (exact or under
  \<open>i\<close>), sequence, alternative, the quantifiers \<open>?\<close>, \<open>*\<close>, \<open>+\<close>, \<open>*?\<close> and \<open>+?\<close>
  on a class, the assertions \<open>^\<close> and \<open>$\<close> (without and with flag \<open>m\<close>) and \<open>\b\<close>,
  and the capturing group whose text the code reads.
\<close>

datatype rx =
    Lit jsstring
  | LitI jsstring
  | Cls cls
  | ClsI cls
  | Seq rx rx
  | Alt rx rx
  | Opt rx
  | Star cls
  | Plus cls
  | LazyStar cls
  | LazyPlus cls
  | Bol
  | Eol
  | BolM
  | EolM
  | WordB
  | Cap rx

text \<open>A position of the matcher: the code unit before it, the rest of the input, and the
  text of the capturing group if it has matched.\<close>

datatype mstate = M (m_before: "nat option") (m_rest: jsstring) (m_captured: "jsstring option")

text \<open>The state after literal text, if the input continues with it: exactly, or up to
  the canonical form under flag \<open>i\<close>.\<close>

fun litStates :: "bool \<Rightarrow> jsstring \<Rightarrow> nat option \<Rightarrow> jsstring \<Rightarrow> jsstring option \<Rightarrow> mstate list" where
  "litStates ci [] b s cap = [M b s cap]"
| "litStates ci (p # ps) b [] cap = []"
| "litStates ci (p # ps) b (c # cs) cap =
     (if (if ci then canonical c = canonical p else c = p)
      then litStates ci ps (Some c) cs cap else [])"

text \<open>The states after a greedy and after a lazy repetition of a class, in the order the
  backtracking matcher tries them.\<close>

fun greedyStates :: "(nat \<Rightarrow> bool) \<Rightarrow> nat option \<Rightarrow> jsstring \<Rightarrow> jsstring option \<Rightarrow> mstate list" where
  "greedyStates p b [] cap = [M b [] cap]"
| "greedyStates p b (c # cs) cap =
     (if p c then greedyStates p (Some c) cs cap @ [M b (c # cs) cap] else [M b (c # cs) cap])"

fun lazyStates :: "(nat \<Rightarrow> bool) \<Rightarrow> nat option \<Rightarrow> jsstring \<Rightarrow> jsstring option \<Rightarrow> mstate list" where
  "lazyStates p b [] cap = [M b [] cap]"
| "lazyStates p b (c # cs) cap =
     (if p c then M b (c # cs) cap # lazyStates p (Some c) cs cap else [M b (c # cs) cap])"

definition wordBefore :: "mstate \<Rightarrow> bool" where
  "wordBefore s = (case m_before s of None \<Rightarrow> False | Some c \<Rightarrow> isWordChar c)"

definition wordAfter :: "mstate \<Rightarrow> bool" where
  "wordAfter s = (case m_rest s of [] \<Rightarrow> False | c # cs \<Rightarrow> isWordChar c)"

text \<open>\<open>rmatch r s\<close>: the positions at which a match of \<open>r\<close> begun at \<open>s\<close> can end, in
  the order of preference of the backtracking matcher.\<close>

primrec rmatch :: "rx \<Rightarrow> mstate \<Rightarrow> mstate list" where
  "rmatch (Lit ps) = (\<lambda>s. litStates False ps (m_before s) (m_rest s) (m_captured s))"
| "rmatch (LitI ps) = (\<lambda>s. litStates True ps (m_before s) (m_rest s) (m_captured s))"
| "rmatch (Cls k) = (\<lambda>s. case m_rest s of [] \<Rightarrow> []
      | c # cs \<Rightarrow> if inClass k c then [M (Some c) cs (m_captured s)] else [])"
| "rmatch (ClsI k) = (\<lambda>s. case m_rest s of [] \<Rightarrow> []
      | c # cs \<Rightarrow> if inClassI k c then [M (Some c) cs (m_captured s)] else [])"
| "rmatch (Seq a b) = (\<lambda>s. concat (map (rmatch b) (rmatch a s)))"
| "rmatch (Alt a b) = (\<lambda>s. rmatch a s @ rmatch b s)"
| "rmatch (Opt a) = (\<lambda>s. rmatch a s @ [s])"
| "rmatch (Star k) = (\<lambda>s. greedyStates (inClass k) (m_before s) (m_rest s) (m_captured s))"
| "rmatch (Plus k) = (\<lambda>s. butlast (greedyStates (inClass k) (m_before s) (m_rest s) (m_captured s)))"
| "rmatch (LazyStar k) = (\<lambda>s. lazyStates (inClass k) (m_before s) (m_rest s) (m_captured s))"
| "rmatch (LazyPlus k) = (\<lambda>s. tl (lazyStates (inClass k) (m_before s) (m_rest s) (m_captured s)))"
| "rmatch Bol = (\<lambda>s. if m_before s = None then [s] else [])"
| "rmatch Eol = (\<lambda>s. if m_rest s = [] then [s] else [])"
| "rmatch BolM = (\<lambda>s. case m_before s of None \<Rightarrow> [s]
      | Some c \<Rightarrow> if isLineTerminator c then [s] else [])"
| "rmatch EolM = (\<lambda>s. case m_rest s of [] \<Rightarrow> [s]
      | c # cs \<Rightarrow> if isLineTerminator c then [s] else [])"
| "rmatch WordB = (\<lambda>s. if wordBefore s \<noteq> wordAfter s then [s] else [])"
| "rmatch (Cap a) = (\<lambda>s. map (\<lambda>e. M (m_before e) (m_rest e)
        (Some (take (length (m_rest s) - length (m_rest e)) (m_rest s)))) (rmatch a s))"

text \<open>
  The first match of a pattern in a string, scanning the start positions from the left:
  the text before the match, the matched text, the captured text and the state after the
  match.
\<close>

record rmatched =
  mt_pre :: jsstring
  mt_text :: jsstring
  mt_group1 :: "jsstring option"
  mt_after :: mstate

definition matchAt :: "jsstring \<Rightarrow> mstate \<Rightarrow> rmatched" where
  "matchAt s e = \<lparr> mt_pre = [], mt_text = take (length s - length (m_rest e)) s,
                   mt_group1 = m_captured e, mt_after = e \<rparr>"

definition prepend :: "nat \<Rightarrow> rmatched option \<Rightarrow> rmatched option" where
  "prepend c found = (case found of None \<Rightarrow> None | Some m \<Rightarrow> Some (m\<lparr> mt_pre := c # mt_pre m \<rparr>))"

fun rexecFrom :: "rx \<Rightarrow> nat option \<Rightarrow> jsstring \<Rightarrow> rmatched option" where
  "rexecFrom r b [] =
     (case rmatch r (M b [] None) of
        e # es \<Rightarrow> Some (matchAt [] e)
      | [] \<Rightarrow> None)"
| "rexecFrom r b (c # cs) =
     (case rmatch r (M b (c # cs) None) of
        e # es \<Rightarrow> Some (matchAt (c # cs) e)
      | [] \<Rightarrow> prepend c (rexecFrom r (Some c) cs))"

definition rexec :: "rx \<Rightarrow> jsstring \<Rightarrow> rmatched option" where
  "rexec r s = rexecFrom r None s"

text \<open>\<open>RegExp.prototype.test\<close> and \<open>String.prototype.match\<close> without flag \<open>g\<close>.\<close>

definition rtest :: "rx \<Rightarrow> jsstring \<Rightarrow> bool" where
  "rtest r s = (rexec r s \<noteq> None)"

text \<open>\<open>String.prototype.replace\<close> with a pattern without flag \<open>g\<close>: the first match is
  replaced; \<open>f\<close> gives the replacement from the match.\<close>

definition replaceFirst :: "rx \<Rightarrow> (rmatched \<Rightarrow> jsstring) \<Rightarrow> jsstring \<Rightarrow> jsstring" where
  "replaceFirst r f s =
     (case rexec r s of
        None \<Rightarrow> s
      | Some m \<Rightarrow> mt_pre m @ f m @ m_rest (mt_after m))"

text \<open>
  \<open>String.prototype.replace\<close> with flag \<open>g\<close>: every match is replaced, each search
  starting where the previous match ended (one code unit further after an empty match).
  \<open>skip\<close> counts the code units of the current match still to pass.
\<close>

fun replaceAllFrom :: "rx \<Rightarrow> (rmatched \<Rightarrow> jsstring) \<Rightarrow> nat \<Rightarrow> nat option \<Rightarrow> jsstring \<Rightarrow> jsstring" where
  "replaceAllFrom r f skip b [] =
     (if skip = 0 then
        (case rmatch r (M b [] None) of
           e # es \<Rightarrow> f (matchAt [] e)
         | [] \<Rightarrow> [])
      else [])"
| "replaceAllFrom r f skip b (c # cs) =
     (if skip > 0 then replaceAllFrom r f (skip - 1) (Some c) cs
      else
        (case rmatch r (M b (c # cs) None) of
           [] \<Rightarrow> c # replaceAllFrom r f 0 (Some c) cs
         | e # es \<Rightarrow>
             (if length (m_rest e) = length (c # cs)
              then f (matchAt (c # cs) e) @ c # replaceAllFrom r f 0 (Some c) cs
              else f (matchAt (c # cs) e)
                   @ replaceAllFrom r f (length (c # cs) - length (m_rest e) - 1) (Some c) cs)))"

definition replaceAll :: "rx \<Rightarrow> (rmatched \<Rightarrow> jsstring) \<Rightarrow> jsstring \<Rightarrow> jsstring" where
  "replaceAll r f s = replaceAllFrom r f 0 None s"

text \<open>Shorthands for writing patterns: a sequence and an alternative of several patterns,
  and literal text given as a string of the theory.\<close>

fun seqs :: "rx list \<Rightarrow> rx" where
  "seqs [] = Lit []"
| "seqs [r] = r"
| "seqs (r # rs) = Seq r (seqs rs)"

fun alts :: "rx list \<Rightarrow> rx" where
  "alts [] = Lit []"
| "alts [r] = r"
| "alts (r # rs) = Alt r (alts rs)"

definition T :: "string \<Rightarrow> rx" where
  "T s = Lit (js s)"

definition TI :: "string \<Rightarrow> rx" where
  "TI s = LitI (js s)"

definition anyOfI :: "string list \<Rightarrow> rx" where
  "anyOfI ws = alts (map TI ws)"

text \<open>The text of the capturing group of a match (\<open>$1\<close>, \<open>match[1]\<close>), an array element
  that may be \<open>undefined\<close>, and the three backticks of a code fence.\<close>

definition groupText :: "rmatched \<Rightarrow> jsstring" where
  "groupText m = (case mt_group1 m of Some g \<Rightarrow> g | None \<Rightarrow> [])"

definition nthField :: "jsstring list \<Rightarrow> nat \<Rightarrow> jsstring option" where
  "nthField flds i = (if i < length flds then Some (flds ! i) else None)"

abbreviation BACKTICKS :: jsstring where "BACKTICKS \<equiv> [96, 96, 96]"

section \<open>Token rate limiter (\<open>lib/utils/rate-limiter.ts\<close>)\<close>

text \<open>
  The limiter keeps a log of usage entries in the order they were recorded.  Every method
  reads the clock; the reading is the parameter \<open>now\<close> (milliseconds), one reading per
  call.  Token counts are the natural numbers \<open>estimateRequestTokens\<close> produces.  The
  window is the constant the constructor sets.  A method that prunes the log returns the
  pruned limiter beside its result.
\<close>

record UsageEntry =
  timestamp :: int
  tokens :: nat

record TokenRateLimiter =
  tokenUsage :: "UsageEntry list"
  maxTokens :: nat

definition windowMs :: int where
  "windowMs = 60000"

definition newTokenRateLimiter :: "nat \<Rightarrow> TokenRateLimiter" where
  "newTokenRateLimiter maxTokensPerMinute = \<lparr> tokenUsage = [], maxTokens = maxTokensPerMinute \<rparr>"

text \<open>\<open>estimateTokens\<close> (\<open>Math.ceil(text.length / 4)\<close>) and \<open>estimateRequestTokens\<close>, the
  source of the token counts.\<close>

definition estimateTokens :: "nat list \<Rightarrow> nat" where
  "estimateTokens txt = (length txt + 3) div 4"

definition estimateRequestTokens :: "nat list \<Rightarrow> nat list \<Rightarrow> nat \<Rightarrow> nat" where
  "estimateRequestTokens sysPrompt usrPrompt responseEstimate =
     estimateTokens sysPrompt + estimateTokens usrPrompt + responseEstimate"

definition cleanOldEntries :: "int \<Rightarrow> TokenRateLimiter \<Rightarrow> TokenRateLimiter" where
  "cleanOldEntries now rl =
     (let cutoff = now - windowMs
      in rl\<lparr> tokenUsage := filter (\<lambda>entry. timestamp entry > cutoff) (tokenUsage rl) \<rparr>)"

definition currentUsage :: "TokenRateLimiter \<Rightarrow> nat" where
  "currentUsage rl = fold (\<lambda>entry sum. sum + tokens entry) (tokenUsage rl) 0"

definition canMakeRequest :: "int \<Rightarrow> nat \<Rightarrow> TokenRateLimiter \<Rightarrow> bool \<times> TokenRateLimiter" where
  "canMakeRequest now estimatedTokens rl =
     (let rl' = cleanOldEntries now rl
      in (currentUsage rl' + estimatedTokens \<le> maxTokens rl', rl'))"

text \<open>The loop of \<open>getRequiredDelay\<close> over the log, oldest entry first; its third
  argument is the initial value of \<open>oldestRelevantTimestamp\<close>.\<close>

fun oldestRelevant :: "UsageEntry list \<Rightarrow> int \<Rightarrow> int \<Rightarrow> int" where
  "oldestRelevant [] tokensToFree oldestRelevantTimestamp = oldestRelevantTimestamp"
| "oldestRelevant (entry # rest) tokensToFree oldestRelevantTimestamp =
     (let tokensToFree' = tokensToFree - int (tokens entry)
      in if tokensToFree' \<le> 0 then timestamp entry
         else oldestRelevant rest tokensToFree' oldestRelevantTimestamp)"

definition getRequiredDelay :: "int \<Rightarrow> nat \<Rightarrow> TokenRateLimiter \<Rightarrow> int \<times> TokenRateLimiter" where
  "getRequiredDelay now estimatedTokens rl =
     (let rl' = cleanOldEntries now rl;
          usage = currentUsage rl'
      in if usage + estimatedTokens \<le> maxTokens rl' then (0, rl')
         else
           let tokensToFree = int usage + int estimatedTokens - int (maxTokens rl');
               oldestRelevantTimestamp = oldestRelevant (tokenUsage rl') tokensToFree now;
               timeSinceOldest = now - oldestRelevantTimestamp;
               remainingTime = windowMs - timeSinceOldest
           in (max 0 remainingTime, rl'))"

definition recordUsage :: "int \<Rightarrow> nat \<Rightarrow> TokenRateLimiter \<Rightarrow> TokenRateLimiter" where
  "recordUsage now n rl =
     cleanOldEntries now (rl\<lparr> tokenUsage := tokenUsage rl @ [\<lparr> timestamp = now, tokens = n \<rparr>] \<rparr>)"

text \<open>The entries recorded within the last 60 seconds, and the tokens of a list of
  entries.\<close>

definition windowed :: "int \<Rightarrow> TokenRateLimiter \<Rightarrow> UsageEntry list" where
  "windowed now rl = filter (\<lambda>entry. now - 60000 < timestamp entry) (tokenUsage rl)"

definition sumTokens :: "UsageEntry list \<Rightarrow> nat" where
  "sumTokens es = sum_list (map tokens es)"


text \<open>Two limiters used as examples: budget 10 with usages 6 and 4, and budget 0 with a
  usage of 0 tokens.\<close>

definition example_limiter :: TokenRateLimiter where
  "example_limiter = recordUsage 2000 4 (recordUsage 1000 6 (newTokenRateLimiter 10))"

definition example_limiter0 :: TokenRateLimiter where
  "example_limiter0 = recordUsage 1000 0 (newTokenRateLimiter 0)"

section \<open>Retry merge of the HTTP route (\<open>POST\<close>, the \<open>previousResults\<close> block)\<close>

text \<open>
  \<open>prevResultsMap\<close> is filled with the previous entries by key, then with the entries of the
  new run; the final entries are the values of the map in insertion order, the headers are
  those of the new run.  Without previous results the new results are returned as they are.
\<close>

definition setByKey :: "TranslationEntry list \<Rightarrow> (jsstring, TranslationEntry) jsmap
    \<Rightarrow> (jsstring, TranslationEntry) jsmap" where
  "setByKey es m = fold (\<lambda>entry acc. Map_set (key entry) entry acc) es m"

definition mergePreviousResults :: "MergedResults option \<Rightarrow> MergedResults \<Rightarrow> MergedResults" where
  "mergePreviousResults previousResults results =
     (case previousResults of
        None \<Rightarrow> results
      | Some prev \<Rightarrow>
          \<lparr> entries = Map_values (setByKey (entries results) (setByKey (entries prev) [])),
            headers = headers results \<rparr>)"

text \<open>The entry an array holds for a key when later entries overwrite earlier ones, and the
  lookup of a key in the final array.\<close>

definition lastWithKey :: "TranslationEntry list \<Rightarrow> jsstring \<Rightarrow> TranslationEntry option" where
  "lastWithKey es k = find (\<lambda>e. key e = k) (rev es)"

definition entryFor :: "MergedResults \<Rightarrow> jsstring \<Rightarrow> TranslationEntry option" where
  "entryFor r k = find (\<lambda>e. key e = k) (entries r)"

text \<open>The retry scenario of the specification: prior table \<open>{a: X, b: [ERROR]}\<close>, the
  retry run over \<open>b\<close> alone gives \<open>{b: Y}\<close>.\<close>

definition example_entry :: "string \<Rightarrow> string \<Rightarrow> TranslationEntry" where
  "example_entry k v =
     \<lparr> key = js k, source = js ''menu'', english = js ''text'',
       columns = [(js ''Spanish'', js v)] \<rparr>"

definition example_prior :: MergedResults where
  "example_prior =
     \<lparr> entries = [example_entry ''a'' ''X'', example_entry ''b'' ''[ERROR]''],
       headers = [js ''Key'', js ''Source'', js ''English Original'', js ''Spanish''] \<rparr>"

definition example_retry :: MergedResults where
  "example_retry =
     \<lparr> entries = [example_entry ''b'' ''Y''],
       headers = [js ''Key'', js ''Source'', js ''English Original'', js ''Spanish''] \<rparr>"

section \<open>Retry and backoff of the Anthropic provider (\<open>lib/providers/anthropic.ts\<close>)\<close>

definition rateLimitRetries :: nat where
  "rateLimitRetries = 3"

definition initialRetryDelay :: real where
  "initialRetryDelay = 2000"

definition isRateLimitError :: "js_error \<Rightarrow> bool" where
  "isRateLimitError e =
     (case e of
        Error message \<Rightarrow>
          str_includes message (js ''429'') \<or> str_includes message (js ''rate_limit_error'')
          \<or> str_includes message (js ''rate limit'')
      | NonError \<Rightarrow> False)"

text \<open>\<open>Math.pow(2, k)\<close> for an integer \<open>k\<close>.\<close>

definition pow2 :: "int \<Rightarrow> real" where
  "pow2 k = (if 0 \<le> k then 2 ^ nat k else 1 / 2 ^ nat (- k))"

text \<open>
  \<open>calculateBackoffDelay\<close>: the value of \<open>Math.random() * 1000\<close> is the parameter
  \<open>jitter\<close>; the arithmetic is that of the reals (the rounding of doubles is not modelled).
\<close>

definition calculateBackoffDelay :: "int \<Rightarrow> real \<Rightarrow> real" where
  "calculateBackoffDelay attempt jitter =
     (let baseDelay = initialRetryDelay * pow2 (attempt - 1)
      in min (baseDelay + jitter) 30000)"


text \<open>
  \<open>translateWithRetry\<close>.  The body of the \<open>try\<close> fails only where the request to the
  provider fails, so \<open>request n\<close> gives the outcome of the request made in attempt \<open>n\<close>:
  the raw text or the thrown value.  \<open>jitter n\<close> is the jitter drawn in attempt \<open>n\<close>,
  \<open>parse\<close> the parser applied to the raw text.  The function returns the outcome and the
  backoff delays it slept, in order (the wait asked by the token limiter before a request
  is a separate delay and not part of this list).
\<close>

function translateWithRetry :: "(nat \<Rightarrow> js_error + jsstring) \<Rightarrow> (nat \<Rightarrow> real)
    \<Rightarrow> (jsstring \<Rightarrow> TranslateResponse) \<Rightarrow> nat \<Rightarrow> real list
    \<Rightarrow> (js_error + TranslateResponse) \<times> real list" where
  "translateWithRetry request jitter parse attempt slept =
     (case request attempt of
        Inr response \<Rightarrow> (Inr (parse response), slept)
      | Inl error \<Rightarrow>
          if isRateLimitError error \<and> attempt \<le> rateLimitRetries
          then translateWithRetry request jitter parse (attempt + 1)
                 (slept @ [calculateBackoffDelay (int attempt) (jitter attempt)])
          else (Inl (Error (js ''Anthropic translation failed: '' @ errorMessage error)), slept))"
  by pat_completeness auto
termination
  by (relation "measure (\<lambda>(request, jitter, parse, attempt, slept). Suc rateLimitRetries - attempt)")
     auto

declare translateWithRetry.simps [simp del]

text \<open>A run used as an example: two rate-limited attempts, then an answer.\<close>

definition example_request :: "nat \<Rightarrow> js_error + jsstring" where
  "example_request n =
     (if n \<le> 2 then Inl (Error (js ''429 Too Many Requests''))
      else Inr (js ''greeting.hi,Hola,Onboarding,Friendly''))"

definition example_parse :: "jsstring \<Rightarrow> TranslateResponse" where
  "example_parse r = \<lparr> translation = r, category = js ''Unknown'', reasoning = js ''raw'' \<rparr>"

section \<open>CSV rows of the Anthropic provider (\<open>lib/providers/anthropic.ts\<close>)\<close>

text \<open>Code units the CSV code names: the double quote, the comma and the line feed.\<close>

abbreviation QUOTE :: nat where "QUOTE \<equiv> 34"
abbreviation COMMA :: nat where "COMMA \<equiv> 44"
abbreviation LF :: nat where "LF \<equiv> 10"

text \<open>\<open>value.replace(/"/g, '""')\<close>: every double quote is doubled.\<close>

definition doubleQuotes :: "jsstring \<Rightarrow> jsstring" where
  "doubleQuotes s = concat (map (\<lambda>c. if c = QUOTE then [QUOTE, QUOTE] else [c]) s)"

definition escapeCSV :: "jsstring \<Rightarrow> jsstring" where
  "escapeCSV v =
     (if str_includes v [COMMA] \<or> str_includes v [LF] \<or> str_includes v [QUOTE]
      then [QUOTE] @ doubleQuotes v @ [QUOTE]
      else v)"

text \<open>
  The \<open>while\<close> loop of \<open>parseCSVLine\<close>: the first argument is the rest of the line from
  index \<open>i\<close> on, then \<open>fields\<close>, \<open>current\<close> and \<open>inQuotes\<close>; it returns \<open>fields\<close> and
  \<open>current\<close> as they are when the line is used up.
\<close>

fun parseCSVLoop :: "jsstring \<Rightarrow> jsstring list \<Rightarrow> jsstring \<Rightarrow> bool
    \<Rightarrow> jsstring list \<times> jsstring" where
  "parseCSVLoop [] flds current inQuotes = (flds, current)"
| "parseCSVLoop (c # rest) flds current True =
     (if c = QUOTE then
        (case rest of
           [] \<Rightarrow> parseCSVLoop rest flds current False
         | c' # rest' \<Rightarrow>
             if c' = QUOTE then parseCSVLoop rest' flds (current @ [QUOTE]) True
             else parseCSVLoop rest flds current False)
      else parseCSVLoop rest flds (current @ [c]) True)"
| "parseCSVLoop (c # rest) flds current False =
     (if c = QUOTE then parseCSVLoop rest flds current True
      else if c = COMMA then parseCSVLoop rest (flds @ [current]) [] False
      else parseCSVLoop rest flds (current @ [c]) False)"

definition parseCSVLine :: "jsstring \<Rightarrow> jsstring list" where
  "parseCSVLine line =
     (let (flds, current) = parseCSVLoop line [] [] False
      in map trim (flds @ [current]))"

text \<open>The row sent to the provider for one entry.\<close>

definition csvRow :: "TranslationEntry \<Rightarrow> jsstring" where
  "csvRow entry = escapeCSV (key entry) @ [COMMA] @ escapeCSV (source entry) @ [COMMA]
                  @ escapeCSV (english entry)"

text \<open>A field has no leading or trailing white space.\<close>

definition noOuterWhiteSpace :: "jsstring \<Rightarrow> bool" where
  "noOuterWhiteSpace f = (f = [] \<or> (\<not> isWhiteSpace (hd f) \<and> \<not> isWhiteSpace (last f)))"

section \<open>Parallel translation engine (\<open>lib/utils/parallel-translation-engine.ts\<close>)\<close>

record ProviderBatchConfig =
  concurrentBatches :: nat
  batchSize :: nat
  delayMs :: nat

text \<open>The options as the constructor stores them: a missing key is the empty string.\<close>

record ParallelEngineOptions =
  openaiKey :: jsstring
  anthropicKey :: jsstring
  googleKey :: jsstring
  openai_config :: ProviderBatchConfig
  anthropic_config :: ProviderBatchConfig
  google_config :: ProviderBatchConfig

record Task =
  task_entry :: TranslationEntry
  task_group :: TranslationGroup
  task_groupIndex :: nat

type_synonym GroupResults = "(jsstring, (jsstring, TranslateResponse) jsmap) jsmap"

text \<open>
  The cancellation signal as the engine observes it: its value at the start of
  \<open>processGroups\<close>, and its value at each successive check made while a provider's groups
  are processed.
\<close>

record AbortSignal =
  abortedAtStart :: bool
  abortedAtCheck :: "Provider \<Rightarrow> nat \<Rightarrow> bool"

definition providerConfig :: "ParallelEngineOptions \<Rightarrow> Provider \<Rightarrow> ProviderBatchConfig" where
  "providerConfig options p =
     (case p of openai \<Rightarrow> openai_config options
              | anthropic \<Rightarrow> anthropic_config options
              | google \<Rightarrow> google_config options)"

definition providerKey :: "ParallelEngineOptions \<Rightarrow> Provider \<Rightarrow> jsstring" where
  "providerKey options p =
     (if p = openai then openaiKey options
      else if p = anthropic then anthropicKey options
      else googleKey options)"

definition groupByProvider :: "TranslationGroup list \<Rightarrow> Provider \<Rightarrow> TranslationGroup list" where
  "groupByProvider groups p = filter (\<lambda>g. provider g = p) groups"

definition errorResult :: "jsstring \<Rightarrow> TranslateResponse" where
  "errorResult message =
     \<lparr> translation = js ''[ERROR]'', category = js ''Error'', reasoning = message \<rparr>"

text \<open>
  \<open>createBatches\<close>: the slices of \<open>batchSize\<close> items.  With a batch size of 0 the loop
  over a non-empty list never ends, which is the result \<open>None\<close>.
\<close>

function createBatchesLoop :: "'a list \<Rightarrow> nat \<Rightarrow> 'a list list" where
  "createBatchesLoop items bsize =
     (if items = [] \<or> bsize = 0 then []
      else take bsize items # createBatchesLoop (drop bsize items) bsize)"
  by pat_completeness auto
termination
  by (relation "measure (\<lambda>(items, bsize). length items)") auto

declare createBatchesLoop.simps [simp del]

definition createBatches :: "'a list \<Rightarrow> nat \<Rightarrow> 'a list list option" where
  "createBatches items bsize =
     (if bsize = 0 \<and> items \<noteq> [] then None else Some (createBatchesLoop items bsize))"

text \<open>
  \<open>processMixedBatch\<close>: one request per task; \<open>translate apiKey task\<close> is the outcome of
  \<open>createProvider(...).translate(...)\<close> for the task, the response or the thrown value.
  The result list is indexed like the batch.
\<close>

definition processMixedBatch :: "(jsstring \<Rightarrow> Task \<Rightarrow> js_error + TranslateResponse)
    \<Rightarrow> Task list \<Rightarrow> jsstring \<Rightarrow> TranslateResponse list" where
  "processMixedBatch translate batch apiKey =
     map (\<lambda>task. case translate apiKey task of
                    Inr response \<Rightarrow> response
                  | Inl error \<Rightarrow> errorResult (errorMessage error))
         batch"

text \<open>The body of \<open>batchResults.forEach\<close>: the result goes to the map of the task's group.\<close>

definition distributeResult :: "Task \<Rightarrow> TranslateResponse \<Rightarrow> GroupResults \<Rightarrow> GroupResults" where
  "distributeResult task result groupResults =
     (case Map_get groupResults (group_id (task_group task)) of
        Some groupResult \<Rightarrow>
          Map_set (group_id (task_group task))
            (Map_set (key (task_entry task)) result groupResult) groupResults
      | None \<Rightarrow> groupResults)"


definition distributeBatch :: "(jsstring \<Rightarrow> Task \<Rightarrow> js_error + TranslateResponse) \<Rightarrow> jsstring
    \<Rightarrow> Task list \<Rightarrow> GroupResults \<Rightarrow> GroupResults" where
  "distributeBatch translate apiKey batch groupResults =
     fold (\<lambda>(task, result) acc. distributeResult task result acc)
          (zip batch (processMixedBatch translate batch apiKey)) groupResults"

text \<open>
  The loop of \<open>processProviderGroups\<close> over the waves of \<open>concurrentBatches\<close> batches,
  from batch index \<open>i\<close>; \<open>check\<close> counts the reads of the cancellation signal.  The
  batches of a wave are taken in their order.  With \<open>concurrentBatches = 0\<close> the loop
  never ends (\<open>None\<close>).
\<close>

function processWaves :: "(jsstring \<Rightarrow> Task \<Rightarrow> js_error + TranslateResponse) \<Rightarrow> jsstring
    \<Rightarrow> ProviderBatchConfig \<Rightarrow> (nat \<Rightarrow> bool) \<Rightarrow> Task list list \<Rightarrow> nat \<Rightarrow> nat
    \<Rightarrow> GroupResults \<Rightarrow> (js_error + GroupResults) option" where
  "processWaves translate apiKey config aborted batches i check groupResults =
     (if i < length batches then
        if aborted check then Some (Inl (Error (js ''Translation cancelled'')))
        else if concurrentBatches config = 0 then None
        else
          let wave = take (concurrentBatches config) (drop i batches);
              groupResults' = fold (distributeBatch translate apiKey) wave groupResults
          in if i + concurrentBatches config < length batches \<and> delayMs config > 0 then
               if aborted (check + 1) then Some (Inl (Error (js ''Translation cancelled'')))
               else processWaves translate apiKey config aborted batches
                      (i + concurrentBatches config) (check + 2) groupResults'
             else processWaves translate apiKey config aborted batches
                    (i + concurrentBatches config) (check + 1) groupResults'
      else Some (Inr groupResults))"
  by pat_completeness auto
termination
  by (relation "measure (\<lambda>(translate, apiKey, config, aborted, batches, i, check, groupResults).
        length batches - i)") auto

declare processWaves.simps [simp del]

definition allTasks :: "TranslationEntry list \<Rightarrow> TranslationGroup list \<Rightarrow> Task list" where
  "allTasks ents groups =
     concat (map (\<lambda>(groupIndex, group).
                    map (\<lambda>entry. \<lparr> task_entry = entry, task_group = group,
                                    task_groupIndex = groupIndex \<rparr>) ents)
                 (enumerate 0 groups))"

definition emptyGroupResults :: "TranslationGroup list \<Rightarrow> GroupResults" where
  "emptyGroupResults groups = fold (\<lambda>group acc. Map_set (group_id group) [] acc) groups []"

definition processProviderGroups :: "(jsstring \<Rightarrow> Task \<Rightarrow> js_error + TranslateResponse)
    \<Rightarrow> ParallelEngineOptions \<Rightarrow> (nat \<Rightarrow> bool) \<Rightarrow> Provider \<Rightarrow> TranslationEntry list
    \<Rightarrow> TranslationGroup list \<Rightarrow> (js_error + GroupResults) option" where
  "processProviderGroups translate options aborted p ents groups =
     (let config = providerConfig options p;
          apiKey = providerKey options p
      in if apiKey = [] then Some (Inr (emptyGroupResults groups))
         else
           case createBatches (allTasks ents groups) (batchSize config) of
             None \<Rightarrow> None
           | Some batches \<Rightarrow>
               processWaves translate apiKey config aborted batches 0 0 (emptyGroupResults groups))"

text \<open>
  \<open>processGroups\<close> up to the table \<open>allResults\<close> it hands to \<open>mergeTranslationResults\<close>
  (the progress counters and callbacks do not enter the table and are left out).
  The providers with groups run side by side and \<open>Promise.all\<close> waits for them: a provider
  that throws makes the call throw, otherwise a provider that never returns makes it never
  return, otherwise each provider's maps are stored under their group ids (taken here in
  the order \<open>openai\<close>, \<open>anthropic\<close>, \<open>google\<close>).
\<close>

definition storeResults :: "GroupResults \<Rightarrow> GroupResults \<Rightarrow> GroupResults" where
  "storeResults results allResults =
     fold (\<lambda>(groupId, result) acc. Map_set groupId result acc) results allResults"

fun awaitAll :: "(js_error + GroupResults) option list \<Rightarrow> (js_error + GroupResults list) option" where
  "awaitAll [] = Some (Inr [])"
| "awaitAll (Some (Inl error) # rest) = Some (Inl error)"
| "awaitAll (Some (Inr results) # rest) =
     (case awaitAll rest of
        Some (Inr others) \<Rightarrow> Some (Inr (results # others))
      | other \<Rightarrow> other)"
| "awaitAll (None # rest) =
     (case awaitAll rest of
        Some (Inl error) \<Rightarrow> Some (Inl error)
      | other \<Rightarrow> None)"

definition processGroupsResults :: "(jsstring \<Rightarrow> Task \<Rightarrow> js_error + TranslateResponse)
    \<Rightarrow> ParallelEngineOptions \<Rightarrow> AbortSignal \<Rightarrow> TranslationEntry list
    \<Rightarrow> TranslationGroup list \<Rightarrow> (js_error + GroupResults) option" where
  "processGroupsResults translate options signal ents groups =
     (if abortedAtStart signal then Some (Inl (Error (js ''Translation cancelled'')))
      else
        let providerPromises =
              map (\<lambda>p. processProviderGroups translate options (abortedAtCheck signal p) p
                          ents (groupByProvider groups p))
                  (filter (\<lambda>p. groupByProvider groups p \<noteq> []) [openai, anthropic, google])
        in case awaitAll providerPromises of
             None \<Rightarrow> None
           | Some (Inl error) \<Rightarrow> Some (Inl error)
           | Some (Inr resultsList) \<Rightarrow>
               Some (Inr (fold storeResults resultsList [])))"

text \<open>
  \<open>mergeTranslationResults\<close> (\<open>lib/utils/csv-merger.ts\<close>).  An assignment
  \<open>mergedEntry[name] = value\<close> writes the field of that name or a dynamic column.  A group
  without a map in the table leaves the entry as it is; a record without a result in the
  map of a group gets empty strings.
\<close>

definition setProperty :: "jsstring \<Rightarrow> jsstring \<Rightarrow> TranslationEntry \<Rightarrow> TranslationEntry" where
  "setProperty name v entry =
     (if name = js ''key'' then entry\<lparr> key := v \<rparr>
      else if name = js ''source'' then entry\<lparr> source := v \<rparr>
      else if name = js ''english'' then entry\<lparr> english := v \<rparr>
      else entry\<lparr> columns := Map_set name v (columns entry) \<rparr>)"

definition mergeGroup :: "GroupResults \<Rightarrow> bool \<Rightarrow> jsstring \<Rightarrow> TranslationGroup \<Rightarrow> TranslationEntry
    \<Rightarrow> TranslationEntry" where
  "mergeGroup table includeMetadata k grp mergedEntry =
     (case Map_get table (group_id grp) of
        None \<Rightarrow> mergedEntry
      | Some groupResults \<Rightarrow>
          let result = (case Map_get groupResults k of
                          Some r \<Rightarrow> r
                        | None \<Rightarrow> \<lparr> translation = [], category = [], reasoning = [] \<rparr>);
              merged = setProperty (columnName grp) (translation result) mergedEntry
          in if includeMetadata
             then setProperty (columnName grp @ js '' Reasoning'') (reasoning result)
                    (setProperty (columnName grp @ js '' Category'') (category result) merged)
             else merged)"

definition mergeTranslationResults :: "TranslationEntry list \<Rightarrow> TranslationGroup list \<Rightarrow> GroupResults
    \<Rightarrow> bool \<Rightarrow> MergedResults" where
  "mergeTranslationResults originalEntries groups table includeMetadata =
     \<lparr> entries = map (\<lambda>entry. fold (mergeGroup table includeMetadata (key entry)) groups entry)
                     originalEntries,
       headers = [js ''Key'', js ''Source'', js ''English Original'']
                 @ concat (map (\<lambda>grp. columnName grp
                                   # (if includeMetadata
                                      then [columnName grp @ js '' Category'',
                                            columnName grp @ js '' Reasoning'']
                                      else [])) groups) \<rparr>"

definition processGroups :: "(jsstring \<Rightarrow> Task \<Rightarrow> js_error + TranslateResponse)
    \<Rightarrow> ParallelEngineOptions \<Rightarrow> AbortSignal \<Rightarrow> TranslationEntry list
    \<Rightarrow> TranslationGroup list \<Rightarrow> bool \<Rightarrow> (js_error + MergedResults) option" where
  "processGroups translate options signal ents groups includeMetadata =
     (case processGroupsResults translate options signal ents groups of
        None \<Rightarrow> None
      | Some (Inl error) \<Rightarrow> Some (Inl error)
      | Some (Inr allResults) \<Rightarrow>
          Some (Inr (mergeTranslationResults ents groups allResults includeMetadata)))"




definition example_group :: "string \<Rightarrow> Provider \<Rightarrow> TranslationGroup" where
  "example_group n p =
     \<lparr> group_id = js n, group_name = js n, provider = p, model = js ''m'',
       systemPrompt = js ''Translate.'', userPrompt = js ''{{text}}'', columnName = js n \<rparr>"

definition example_groups :: "TranslationGroup list" where
  "example_groups = [example_group ''es'' openai, example_group ''hi'' google]"

definition example_entries :: "TranslationEntry list" where
  "example_entries = [example_entry ''a'' ''X'', example_entry ''b'' ''Y'']"




section \<open>Response validator (\<open>lib/utils/response-validator.ts\<close>)\<close>

text \<open>
  A pattern of the validator with the text \<open>${pattern}\<close> prints for it.  In the literals
  of the theory the backslash of that text is written \<open>~\<close>.
\<close>

definition src :: "string \<Rightarrow> jsstring" where
  "src s = map (\<lambda>c. if c = CHR ''~'' then 92 else of_char c) s"

definition failurePatterns :: "(rx \<times> jsstring) list" where
  "failurePatterns =
     [(seqs [Bol, anyOfI [''i'm'', ''i am''], TI '' '', anyOfI [''ready'', ''happy'', ''prepared''],
             TI '' to translate''],
       src ''/^(i'm|i am) (ready|happy|prepared) to translate/i''),
      (seqs [Bol, TI ''please provide''], src ''/^please provide/i''),
      (seqs [Bol, TI ''translate:''], src ''/^translate:/i''),
      (seqs [Bol, TI ''error:''], src ''/^error:/i''),
      (seqs [Bol, TI ''sorry''], src ''/^sorry/i''),
      (seqs [Bol, TI ''i cannot''], src ''/^i cannot/i''),
      (seqs [Bol, TI ''s concise'', Eol], src ''/^s concise$/i''),
      (seqs [Bol, Plus (Either (Between 97 122) (Between 65 90)), TI '' '',
             anyOfI [''concise'', ''formal'', ''informal''], Eol],
       src ''/^[a-z]+ (concise|formal|informal)$/i'')]"

definition validatorExplanatoryPatterns :: "(rx \<times> jsstring) list" where
  "validatorExplanatoryPatterns =
     [(seqs [WordB, anyOfI [''i'll'', ''i will'', ''let me'', ''i would'', ''i can''], TI '' '',
             anyOfI [''output'', ''return'', ''provide'', ''give you'', ''format'', ''translate'']],
       src ''/~b(i'll|i will|let me|i would|i can) (output|return|provide|give you|format|translate)/i''),
      (seqs [WordB, TI ''format you specified'', WordB], src ''/~bformat you specified~b/i''),
      (seqs [WordB, TI ''and i'll'', WordB], src ''/~band i'll~b/i''),
      (seqs [WordB, TI ''here is the translation'', WordB], src ''/~bhere is the translation~b/i''),
      (seqs [WordB, TI ''here are the four fields'', WordB], src ''/~bhere are the four fields~b/i''),
      (seqs [WordB, TI ''four csv fields'', WordB], src ''/~bfour csv fields~b/i''),
      (seqs [WordB, TI ''output four csv fields'', WordB], src ''/~boutput four csv fields~b/i'')]"

text \<open>The first pattern of a list that matches, as the loops with \<open>break\<close> find it.\<close>

definition firstMatching :: "(rx \<times> jsstring) list \<Rightarrow> jsstring \<Rightarrow> (rx \<times> jsstring) option" where
  "firstMatching patterns s = find (\<lambda>p. rtest (fst p) s) patterns"

record LanguageCheck =
  lc_valid :: bool
  lc_issues :: "jsstring list"
  lc_penalty :: int

definition spanishWords :: rx where
  "spanishWords =
     seqs [WordB,
       alts (map LitI
         (map js [''el'', ''la'', ''de'', ''que'', ''y'', ''a'', ''en'', ''un'', ''ser'', ''se'',
            ''no'', ''haber'', ''por'', ''con'', ''su'', ''para'', ''como'', ''estar'', ''tener'',
            ''le'', ''lo'', ''todo'', ''pero''] @ [[109, 225, 115]] @
          map js [''hacer'', ''o'', ''poder'', ''decir'', ''este'', ''ir'', ''ver'', ''dar'',
            ''saber'', ''querer'', ''llegar'', ''pasar'', ''deber'', ''poner'', ''parecer'',
            ''quedar'', ''creer'', ''hablar'', ''llevar'', ''dejar'', ''seguir'', ''encontrar'',
            ''llamar'', ''venir'', ''pensar'', ''salir'', ''volver'', ''tomar'', ''conocer'',
            ''vivir''])),
       WordB]"

text \<open>\<open>checkLanguageSpecific\<close>.  The names and letters outside ASCII are given by their
  code units.\<close>

definition checkLanguageSpecific :: "jsstring \<Rightarrow> jsstring \<Rightarrow> LanguageCheck" where
  "checkLanguageSpecific text language =
     (let l = toLowerCase language;
          (issues, penalty) =
            (if l = js ''spanish'' \<or> l = [101, 115, 112, 97, 241, 111, 108] then
               let (issues1, penalty1) =
                     (if \<not> rtest (ClsI (Chars [225, 233, 237, 243, 250, 241, 191, 161])) text
                         \<and> length text > 20
                      then ([js ''Long text without Spanish-specific characters''], 10)
                      else ([], 0))
               in if \<not> rtest spanishWords text \<and> length (split 32 text) > 3
                  then (issues1 @ [js ''No common Spanish words detected''], penalty1 + 20)
                  else (issues1, penalty1)
             else if l = js ''hindi'' \<or> l = [2361, 2367, 2306, 2342, 2368] then
               if \<not> rtest (Cls (Between 2304 2431)) text
               then ([js ''No Devanagari script detected for Hindi translation''], 50)
               else ([], 0)
             else if l = js ''french'' \<or> l = [102, 114, 97, 110, 231, 97, 105, 115] then
               if \<not> rtest (ClsI (Chars [224, 226, 228, 231, 232, 233, 234, 235, 238, 239, 244,
                                            249, 251, 252])) text \<and> length text > 20
               then ([js ''Long text without French-specific characters''], 10)
               else ([], 0)
             else if l = js ''german'' \<or> l = js ''deutsch'' then
               if \<not> rtest (ClsI (Chars [228, 246, 252, 223])) text \<and> length text > 20
               then ([js ''Long text without German-specific characters''], 10)
               else ([], 0)
             else if l = js ''marathi'' \<or> l = [2350, 2352, 2366, 2336, 2368] then
               if \<not> rtest (Cls (Between 2304 2431)) text
               then ([js ''No Devanagari script detected for Marathi translation''], 50)
               else ([], 0)
             else if l = js ''kannada'' \<or> l = [3221, 3240, 3277, 3240, 3233] then
               if \<not> rtest (Cls (Between 3200 3327)) text
               then ([js ''No Kannada script detected for Kannada translation''], 50)
               else ([], 0)
             else ([], 0))
      in \<lparr> lc_valid = (penalty < 30), lc_issues = issues, lc_penalty = penalty \<rparr>)"

definition suggestFix :: "jsstring list \<Rightarrow> jsstring option" where
  "suggestFix issues =
     (if list_ex (\<lambda>i. str_includes i (js ''style descriptor'')) issues then
        Some (js ''The AI returned a style descriptor instead of a translation. Try clarifying the prompt to explicitly request the translated text.'')
      else if list_ex (\<lambda>i. str_includes i (js ''failure pattern'')) issues then
        Some (js ''The AI response suggests it didn't understand the request. Consider simplifying the prompt or providing examples.'')
      else if list_ex (\<lambda>i. str_includes i (js ''identical to original'')) issues then
        Some (js ''The translation is identical to the original. The AI might not have processed the request correctly.'')
      else None)"

record ValidationResult =
  isValid :: bool
  issues :: "jsstring list"
  confidence :: int
  suggestedFix :: "jsstring option"

definition styleDescriptors :: "jsstring list" where
  "styleDescriptors = map js [''concise'', ''formal'', ''casual'', ''polite'', ''friendly'']"

text \<open>\<open>validateTranslationResponse\<close>: each check is a step from the issues and the
  confidence so far to the next ones, in the order of the source.\<close>

definition check1 :: "jsstring \<Rightarrow> jsstring list \<times> int \<Rightarrow> jsstring list \<times> int" where
  "check1 response st =
     (if length response < 3
      then (fst st @ [js ''Response is suspiciously short (less than 3 characters)''], snd st - 40)
      else st)"

definition check2 :: "jsstring \<Rightarrow> jsstring \<Rightarrow> jsstring list \<times> int \<Rightarrow> jsstring list \<times> int" where
  "check2 response originalText st =
     (if toLowerCase response = toLowerCase originalText
      then (fst st @ [js ''Response is identical to original text''], snd st - 50)
      else st)"

definition check3explanatory :: "jsstring \<Rightarrow> jsstring list \<times> int \<Rightarrow> jsstring list \<times> int" where
  "check3explanatory response st =
     (case firstMatching validatorExplanatoryPatterns response of
        Some pattern \<Rightarrow>
          (fst st @ [js ''Response contains explanatory text instead of translation: '' @ snd pattern],
           snd st - 80)
      | None \<Rightarrow> st)"

definition check3failure :: "jsstring \<Rightarrow> jsstring list \<times> int \<Rightarrow> jsstring list \<times> int" where
  "check3failure response st =
     (case firstMatching failurePatterns response of
        Some pattern \<Rightarrow>
          (fst st @ [js ''Response matches failure pattern: '' @ snd pattern], snd st - 60)
      | None \<Rightarrow> st)"

definition check4 :: "jsstring \<Rightarrow> jsstring \<Rightarrow> jsstring list \<times> int \<Rightarrow> jsstring list \<times> int" where
  "check4 response targetLanguage st =
     (let languageChecks = checkLanguageSpecific response targetLanguage
      in if \<not> lc_valid languageChecks
         then (fst st @ lc_issues languageChecks, snd st - lc_penalty languageChecks)
         else st)"

definition check5 :: "jsstring \<Rightarrow> jsstring list \<times> int \<Rightarrow> jsstring list \<times> int" where
  "check5 response st =
     (if str_includes response [10] \<and> \<not> str_includes response [44]
      then (fst st @ [js ''Response has newlines but no commas - might be malformed''], snd st - 20)
      else st)"

definition check6 :: "jsstring \<Rightarrow> jsstring list \<times> int \<Rightarrow> jsstring list \<times> int" where
  "check6 response st =
     (let ws = split 32 (toLowerCase response)
      in if length ws = 1 \<and> hd ws \<in> set styleDescriptors then
           (fst st @ [js ''Response appears to be only a style descriptor, not a translation''],
            snd st - 70)
         else if length ws = 2
                 \<and> list_all (\<lambda>w. w \<in> set styleDescriptors \<or> w = js ''translation'') ws then
           (fst st @ [js ''Response appears to be a style descriptor phrase, not a translation''],
            snd st - 70)
         else st)"

definition validationChecks :: "jsstring \<Rightarrow> jsstring \<Rightarrow> jsstring \<Rightarrow> jsstring list \<times> int" where
  "validationChecks response originalText targetLanguage =
     check6 response (check5 response (check4 response targetLanguage
       (check3failure response (check3explanatory response
         (check2 response originalText (check1 response ([], 100)))))))"

definition validateTranslationResponse :: "jsstring \<Rightarrow> jsstring \<Rightarrow> jsstring \<Rightarrow> ValidationResult" where
  "validateTranslationResponse response originalText targetLanguage =
     (let (iss, conf) = validationChecks response originalText targetLanguage
      in \<lparr> isValid = (conf \<ge> 50), issues = iss, confidence = max 0 conf,
           suggestedFix = suggestFix iss \<rparr>)"

section \<open>Response recovery (\<open>lib/utils/csv-parser.ts\<close>)\<close>

definition preprocessResponse :: "jsstring \<Rightarrow> jsstring" where
  "preprocessResponse response =
     (let cleaned = response;
          cleaned = replaceAll (seqs [BolM, Lit BACKTICKS, Opt (T ''csv''), Star Space, Opt (Lit [10])])
                      (\<lambda>m. []) cleaned;
          cleaned = replaceAll (seqs [Opt (Lit [10]), Lit BACKTICKS, Star Space, EolM])
                      (\<lambda>m. []) cleaned;
          cleaned = replaceAll (seqs [T ''**'', Cap (LazyPlus Dot), T ''**'']) groupText cleaned;
          cleaned = replaceAll (seqs [T ''*'', Cap (LazyPlus Dot), T ''*'']) groupText cleaned;
          cleaned = replaceAll (seqs [Lit [96], Cap (LazyPlus Dot), Lit [96]]) groupText cleaned;
          cleaned = replaceAll (Cls (Chars [34, 34])) (\<lambda>m. [34]) cleaned;
          cleaned = replaceAll (Cls (Chars [39, 39])) (\<lambda>m. [39]) cleaned;
          cleaned = replaceFirst
                      (seqs [BolM, TI ''here'', Alt (TI '''s'') (TI '' is''), TI '' '',
                             Alt (TI ''the'') (TI ''your''), TI '' '',
                             Alt (TI ''translation'') (TI ''csv''), LazyStar Dot, T '':'',
                             Star Space])
                      (\<lambda>m. []) cleaned;
          cleaned = replaceFirst
                      (seqs [BolM, TI ''i've translated'', LazyStar Dot, T '':'', Star Space])
                      (\<lambda>m. []) cleaned
      in trim cleaned)"

text \<open>
  \<open>parseAIResponse\<close>; \<open>None\<close> is \<open>null\<close>.  \<open>parseRow\<close>, which hands the line to the
  PapaParse library, is a parameter.
\<close>

definition trimmedOr :: "jsstring option \<Rightarrow> jsstring \<Rightarrow> jsstring" where
  "trimmedOr field dflt =
     (case field of
        None \<Rightarrow> dflt
      | Some f \<Rightarrow> if trim f = [] then dflt else trim f)"

definition looksLikeHeader :: "jsstring \<Rightarrow> bool" where
  "looksLikeHeader line =
     (str_includes (toLowerCase line) (js ''key,'')
      \<or> (str_includes (toLowerCase line) (js ''category'')
          \<and> str_includes (toLowerCase line) (js ''reasoning'')))"

fun findDataLine :: "jsstring list \<Rightarrow> jsstring" where
  "findDataLine [] = []"
| "findDataLine (line # lines) =
     (if looksLikeHeader line then findDataLine lines
      else if str_includes line [44] then line
      else findDataLine lines)"

definition parseAIResponse :: "(jsstring \<Rightarrow> jsstring list) \<Rightarrow> jsstring \<Rightarrow> TranslateResponse option" where
  "parseAIResponse parseRow response =
     (let cleanResponse = preprocessResponse response
      in if str_includes (toLowerCase cleanResponse) (js ''i'm ready to translate'')
            \<or> str_includes (toLowerCase cleanResponse) (js ''please provide'')
            \<or> rtest (seqs [WordB, anyOfI [''i'll'', ''i will'', ''let me''], TI '' '',
                            anyOfI [''output'', ''return'', ''provide'', ''give you'', ''format'']])
                  cleanResponse
            \<or> str_includes cleanResponse (js ''format you specified'')
            \<or> str_includes cleanResponse (js ''four csv fields'')
            \<or> str_includes cleanResponse (js ''four fields'')
         then None
         else
           let lines = filter (\<lambda>line. trim line \<noteq> []) (split 10 cleanResponse);
               dataLine = findDataLine lines
           in if dataLine = [] then None
              else
                let flds = parseRow dataLine
                in if length flds < 2 then None
                   else if trim (flds ! 1) = [] then None
                   else Some \<lparr> translation = trim (flds ! 1),
                               category = trimmedOr (nthField flds 2) (js ''Unknown''),
                               reasoning = trimmedOr (nthField flds 3) (js ''Parsed from CSV'') \<rparr>)"

definition acknowledgmentPatterns :: "rx list" where
  "acknowledgmentPatterns =
     [seqs [Bol, Opt (anyOfI [''and '', ''then '', ''next '', ''now '', ''yes, '']),
            anyOfI [''i'll'', ''i will'', ''i would'', ''i can'', ''let me''], TI '' '',
            anyOfI [''output'', ''return'', ''provide'', ''give you'', ''format'', ''translate'']],
      seqs [Bol, anyOfI [''sure'', ''okay'', ''yes'', ''alright''], Opt (T '',''), Star Space,
            anyOfI [''i'll'', ''i will'', ''here is'', ''here are'']],
      seqs [WordB, anyOfI [''output'', ''return'', ''provide''], TI '' '',
            Opt (anyOfI [''the '', ''exactly '']), anyOfI [''four'', ''4''], TI '' '',
            Opt (TI ''csv ''),
            Alt (Seq (TI ''field'') (Opt (TI ''s''))) (Seq (TI ''column'') (Opt (TI ''s'')))],
      seqs [WordB, TI ''format you '', anyOfI [''specified'', ''requested'', ''asked for'']],
      seqs [Bol, Opt (TI ''yes, ''), TI ''here '', anyOfI [''is'', ''are''], TI '' '',
            anyOfI [''the'', ''your''], TI '' translation'']]"

definition mentionsCSVStructure :: rx where
  "mentionsCSVStructure =
     seqs [WordB,
           alts [TI ''key'', TI ''category'', TI ''reasoning'', TI ''translation'', TI ''csv'',
                 Seq (TI ''field'') (Opt (TI ''s''))],
           WordB]"

definition extractionPatterns :: "rx list" where
  "extractionPatterns =
     map (\<lambda>w. seqs [TI w, Star (Either (Chars [58]) Space), Cap (LazyPlus Dot),
                     alts [T '','', Lit [10], Eol]])
         [''translation'', ''translated'', ''result'']"

definition explanatoryPatterns :: "rx list" where
  "explanatoryPatterns =
     [seqs [WordB, anyOfI [''i'll'', ''i will'', ''let me'', ''i would''], TI '' '',
            anyOfI [''output'', ''return'', ''provide'', ''give you'', ''format'']],
      seqs [WordB, TI ''format you specified'', WordB],
      seqs [WordB, TI ''and i'll'', WordB],
      seqs [WordB, TI ''four csv fields'', WordB],
      seqs [WordB, TI ''output four csv fields'', WordB]]"

text \<open>\<open>.replace(/^["']|["']$/g, '')\<close>.\<close>

definition stripQuotes :: "jsstring \<Rightarrow> jsstring" where
  "stripQuotes s =
     replaceAll (Alt (Seq Bol (Cls (Chars [34, 39]))) (Seq (Cls (Chars [34, 39])) Eol))
       (\<lambda>m. []) s"

text \<open>
  The steps of \<open>parseWithFallbacks\<close>, each the result it returns or \<open>None\<close> when the
  code goes on to the next step.
\<close>

definition acknowledgmentStep :: "jsstring \<Rightarrow> TranslateResponse option" where
  "acknowledgmentStep response =
     (if list_ex (\<lambda>pattern. rtest pattern (trim response)) acknowledgmentPatterns
      then Some \<lparr> translation = js ''[ERROR]'', category = js ''Error'',
                   reasoning = js ''AI returned acknowledgment text instead of translation - likely missing CSV data'' \<rparr>
      else None)"

definition structureMentionStep :: "jsstring \<Rightarrow> TranslateResponse option" where
  "structureMentionStep response =
     (if rtest mentionsCSVStructure response \<and> \<not> str_includes response [44]
         \<and> length response < 100
      then Some \<lparr> translation = js ''[ERROR]'', category = js ''Error'',
                   reasoning = js ''Response mentions CSV structure without providing actual CSV'' \<rparr>
      else None)"

fun extractionStep :: "rx list \<Rightarrow> jsstring \<Rightarrow> TranslateResponse option" where
  "extractionStep [] response = None"
| "extractionStep (pattern # patterns) response =
     (case rexec pattern response of
        None \<Rightarrow> extractionStep patterns response
      | Some m \<Rightarrow>
          if groupText m = [] then extractionStep patterns response
          else Some \<lparr> translation = stripQuotes (trim (groupText m)),
                       category = js ''Unknown'', reasoning = js ''Extracted from response'' \<rparr>)"

definition explanatoryStep :: "jsstring \<Rightarrow> jsstring \<Rightarrow> TranslateResponse option" where
  "explanatoryStep cleanedResponse text =
     (if list_ex (\<lambda>pattern. rtest pattern cleanedResponse) explanatoryPatterns
      then Some \<lparr> translation = text, category = js ''Error'',
                   reasoning = js ''AI returned explanatory text instead of translation'' \<rparr>
      else None)"

definition malformedCSVStep :: "jsstring \<Rightarrow> jsstring \<Rightarrow> TranslateResponse option" where
  "malformedCSVStep cleanedResponse text =
     (if str_includes cleanedResponse [44] \<and> length (split 44 cleanedResponse) \<ge> 2 then
        let parts = split 44 cleanedResponse
        in if length parts \<ge> 2 then
             let possibleTranslation = stripQuotes (trim (parts ! 1))
             in if possibleTranslation \<noteq> [] \<and> possibleTranslation \<noteq> text
                then Some \<lparr> translation = possibleTranslation, category = js ''Unknown'',
                             reasoning = js ''Extracted from malformed CSV'' \<rparr>
                else None
           else None
      else None)"

text \<open>The first issue in the text of the reasoning; \<open>issues[0]\<close> of an empty array prints as
  \<open>undefined\<close>.\<close>

definition firstIssue :: "jsstring list \<Rightarrow> jsstring" where
  "firstIssue iss = (case iss of [] \<Rightarrow> js ''undefined'' | i # others \<Rightarrow> i)"

definition validationStep :: "jsstring \<Rightarrow> jsstring \<Rightarrow> jsstring option \<Rightarrow> TranslateResponse option" where
  "validationStep cleanedResponse text targetLanguage =
     (case targetLanguage of
        None \<Rightarrow> None
      | Some language \<Rightarrow>
          if language \<noteq> [] \<and> \<not> str_includes cleanedResponse [44] then
            let validation = validateTranslationResponse cleanedResponse text language
            in if \<not> isValid validation
               then Some \<lparr> translation = text, category = js ''Error'',
                            reasoning = js ''Invalid response: '' @ firstIssue (issues validation) \<rparr>
               else None
          else None)"

definition directStep :: "jsstring \<Rightarrow> jsstring \<Rightarrow> TranslateResponse option" where
  "directStep cleanedResponse text =
     (if length cleanedResponse < length text * 3
         \<and> \<not> str_includes (toLowerCase cleanedResponse) (js ''translate'')
         \<and> \<not> str_includes (toLowerCase cleanedResponse) (js ''csv'')
      then Some \<lparr> translation = cleanedResponse, category = js ''Unknown'',
                   reasoning = js ''Direct response assumed as translation'' \<rparr>
      else None)"

definition finalFallback :: "jsstring \<Rightarrow> TranslateResponse" where
  "finalFallback text =
     \<lparr> translation = text, category = js ''Error'', reasoning = js ''Failed to parse AI response'' \<rparr>"

text \<open>The first step of a chain that returns a result decides.\<close>

fun firstResult :: "TranslateResponse option list \<Rightarrow> TranslateResponse \<Rightarrow> TranslateResponse" where
  "firstResult [] final = final"
| "firstResult (None # steps) final = firstResult steps final"
| "firstResult (Some r # steps) final = r"

definition parseSteps :: "(jsstring \<Rightarrow> jsstring list) \<Rightarrow> jsstring \<Rightarrow> jsstring \<Rightarrow> jsstring option
    \<Rightarrow> TranslateResponse option list" where
  "parseSteps parseRow response text targetLanguage =
     [acknowledgmentStep response,
      structureMentionStep response,
      parseAIResponse parseRow response,
      extractionStep extractionPatterns response,
      explanatoryStep (trim response) text,
      malformedCSVStep (trim response) text,
      validationStep (trim response) text targetLanguage,
      directStep (trim response) text]"

definition parseWithFallbacks :: "(jsstring \<Rightarrow> jsstring list) \<Rightarrow> jsstring \<Rightarrow> jsstring \<Rightarrow> jsstring option
    \<Rightarrow> TranslateResponse" where
  "parseWithFallbacks parseRow response text targetLanguage =
     firstResult (parseSteps parseRow response text targetLanguage) (finalFallback text)"

text \<open>Inputs used as examples; the row parser of the examples splits at commas.\<close>

definition example_parseRow :: "jsstring \<Rightarrow> jsstring list" where
  "example_parseRow line = split 44 line"

definition example_acknowledgment :: jsstring where
  "example_acknowledgment = js ''Sure, I'll output the four fields now: ...''"

section \<open>Batch responses of the Anthropic provider (\<open>lib/providers/anthropic.ts\<close>)\<close>

text \<open>\<open>field || dflt\<close> for an array element that may be \<open>undefined\<close> or empty.\<close>

definition fieldOr :: "jsstring option \<Rightarrow> jsstring \<Rightarrow> jsstring" where
  "fieldOr field dflt = (case field of None \<Rightarrow> dflt | Some f \<Rightarrow> if f = [] then dflt else f)"









section \<open>Providers and batch execution (\<open>lib/providers/base.ts\<close>, \<open>anthropic.ts\<close>,
  \<open>parallel-translation-engine.ts\<close>)\<close>






text \<open>The loop of \<open>parseCSVResponse\<close> over the lines; \<open>n\<close> is the number of lines of the
  response and \<open>None\<close> the end of the loop without a \<open>return\<close>.\<close>

fun parseCSVRows :: "jsstring list \<Rightarrow> nat \<Rightarrow> jsstring \<Rightarrow> jsstring \<Rightarrow> TranslateResponse option" where
  "parseCSVRows [] n expectedKey originalText = None"
| "parseCSVRows (line # lines) n expectedKey originalText =
     (if trim line = [] then parseCSVRows lines n expectedKey originalText
      else
        let flds = parseCSVLine line
        in if length flds \<ge> 4 then
             if flds ! 0 = expectedKey \<or> n = 1 then
               Some \<lparr> translation = fieldOr (nthField flds 1) originalText,
                      category = fieldOr (nthField flds 2) (js ''Unknown''),
                      reasoning = fieldOr (nthField flds 3) (js ''Parsed from CSV response'') \<rparr>
             else parseCSVRows lines n expectedKey originalText
           else if length flds \<ge> 2 then
             Some \<lparr> translation = flds ! 1,
                    category = fieldOr (nthField flds 2) (js ''Unknown''),
                    reasoning = fieldOr (nthField flds 3) (js ''Parsed from partial CSV response'') \<rparr>
           else parseCSVRows lines n expectedKey originalText)"

definition parseCSVResponse :: "(jsstring \<Rightarrow> jsstring list) \<Rightarrow> jsstring \<Rightarrow> jsstring \<Rightarrow> jsstring
    \<Rightarrow> jsstring \<Rightarrow> TranslateResponse" where
  "parseCSVResponse parseRow response expectedKey originalText language =
     (let lines = split 10 (trim response)
      in case parseCSVRows lines (length lines) expectedKey originalText of
           Some r \<Rightarrow> r
         | None \<Rightarrow> parseWithFallbacks parseRow response originalText (Some language))"












section \<open>Properties\<close>

subsection \<open>Maps\<close>

lemma Map_set_get: "Map_get (Map_set k v m) k' = (if k' = k then Some v else Map_get m k')"
  by (induction m) (auto simp: Map_get_def)

lemma Map_set_keys: "set (Map_keys (Map_set k v m)) = insert k (set (Map_keys m))"
  by (induction m) (auto simp: Map_keys_def)

lemma Map_set_distinct: "distinct (Map_keys m) \<Longrightarrow> distinct (Map_keys (Map_set k v m))"
proof (induction m)
  case Nil
  then show ?case by (simp add: Map_keys_def)
next
  case (Cons p ps)
  have "set (Map_keys (Map_set k v ps)) = insert k (set (Map_keys ps))"
    by (rule Map_set_keys)
  with Cons show ?case by (auto simp: Map_keys_def)
qed

lemma Map_set_keyed:
  "\<forall>p \<in> set m. f (snd p) = fst p \<Longrightarrow> f v = k \<Longrightarrow> \<forall>p \<in> set (Map_set k v m). f (snd p) = fst p"
  by (induction m) auto

subsection \<open>Regular expressions\<close>

text \<open>The equations that evaluate a pattern on a given string.\<close>

lemmas rx_eval = rtest_def rexec_def T_def TI_def anyOfI_def js_def matchAt_def prepend_def
  replaceAll_def replaceFirst_def canonical_def uncanonical_def isWhiteSpace_def
  isLineTerminator_def isWordChar_def wordBefore_def wordAfter_def inClassI_def
  trim_def trimStart_def trimEnd_def split_def toLowerCase_def lowerUnit_def groupText_def

subsection \<open>Rate limiter\<close>

lemma fold_sum: "fold (\<lambda>entry sum. sum + tokens entry) es a = a + sumTokens es"
  by (induction es arbitrary: a) (simp_all add: sumTokens_def)

lemma currentUsage_clean: "currentUsage (cleanOldEntries now rl) = sumTokens (windowed now rl)"
  by (simp add: currentUsage_def cleanOldEntries_def windowed_def windowMs_def fold_sum)

lemma tokenUsage_clean: "tokenUsage (cleanOldEntries now rl) = windowed now rl"
  by (simp add: cleanOldEntries_def windowed_def windowMs_def)

lemma maxTokens_clean: "maxTokens (cleanOldEntries now rl) = maxTokens rl"
  by (simp add: cleanOldEntries_def)

lemma oldestRelevant_cases:
  "0 < d \<Longrightarrow> (oldestRelevant es d dflt = dflt \<and> int (sumTokens es) < d)
   \<or> (\<exists>k < length es. oldestRelevant es d dflt = timestamp (es ! k)
         \<and> d \<le> int (sumTokens (take (Suc k) es)) \<and> int (sumTokens (take k es)) < d)"
proof (induction es arbitrary: d)
  case Nil
  then show ?case by (simp add: sumTokens_def)
next
  case (Cons e es)
  show ?case
  proof (cases "d - int (tokens e) \<le> 0")
    case True
    then have "oldestRelevant (e # es) d dflt = timestamp e" by simp
    moreover have "d \<le> int (sumTokens (take (Suc 0) (e # es)))" using True by (simp add: sumTokens_def)
    ultimately show ?thesis using Cons.prems by (intro disjI2 exI [of _ 0]) (simp add: sumTokens_def)
  next
    case False
    then have step: "oldestRelevant (e # es) d dflt = oldestRelevant es (d - int (tokens e)) dflt"
      by simp
    from False have "0 < d - int (tokens e)" by simp
    from Cons.IH [OF this] show ?thesis
    proof
      assume "oldestRelevant es (d - int (tokens e)) dflt = dflt \<and> int (sumTokens es) < d - int (tokens e)"
      then show ?thesis using step by (simp add: sumTokens_def)
    next
      assume "\<exists>k<length es. oldestRelevant es (d - int (tokens e)) dflt = timestamp (es ! k)
         \<and> d - int (tokens e) \<le> int (sumTokens (take (Suc k) es))
         \<and> int (sumTokens (take k es)) < d - int (tokens e)"
      then obtain k where k: "k < length es"
        "oldestRelevant es (d - int (tokens e)) dflt = timestamp (es ! k)"
        "d - int (tokens e) \<le> int (sumTokens (take (Suc k) es))"
        "int (sumTokens (take k es)) < d - int (tokens e)"
        by auto
      show ?thesis
        using k step by (intro disjI2 exI [of _ "Suc k"]) (simp add: sumTokens_def)
    qed
  qed
qed

lemma sumTokens_filter_le: "sumTokens (filter P es) \<le> sumTokens es"
  by (induction es) (simp_all add: sumTokens_def)

lemma oldestRelevant_frees:
  "sorted (map timestamp es) \<Longrightarrow> 0 < d \<Longrightarrow> d \<le> int (sumTokens es) \<Longrightarrow>
   oldestRelevant es d dflt \<in> timestamp ` set es
   \<and> int (sumTokens (filter (\<lambda>entry. oldestRelevant es d dflt < timestamp entry) es)) + d \<le> int (sumTokens es)"
proof (induction es arbitrary: d)
  case Nil
  then show ?case by (simp add: sumTokens_def)
next
  case (Cons e es)
  show ?case
  proof (cases "d - int (tokens e) \<le> 0")
    case True
    then have ts: "oldestRelevant (e # es) d dflt = timestamp e" by simp
    have "sumTokens (filter (\<lambda>entry. timestamp e < timestamp entry) es) \<le> sumTokens es"
      by (rule sumTokens_filter_le)
    then show ?thesis using ts True by (simp add: sumTokens_def)
  next
    case False
    then have step: "oldestRelevant (e # es) d dflt = oldestRelevant es (d - int (tokens e)) dflt"
      by simp
    have pos: "0 < d - int (tokens e)" using False by simp
    have cover: "d - int (tokens e) \<le> int (sumTokens es)" using Cons.prems(3) by (simp add: sumTokens_def)
    have srt: "sorted (map timestamp es)" using Cons.prems(1) by simp
    note IH = Cons.IH [OF srt pos cover]
    let ?ts = "oldestRelevant es (d - int (tokens e)) dflt"
    from IH have mem: "?ts \<in> timestamp ` set es" by blast
    then have "timestamp e \<le> ?ts" using Cons.prems(1) by auto
    then have "filter (\<lambda>entry. ?ts < timestamp entry) (e # es) = filter (\<lambda>entry. ?ts < timestamp entry) es"
      by simp
    moreover from IH have "int (sumTokens (filter (\<lambda>entry. ?ts < timestamp entry) es)) + (d - int (tokens e)) \<le> int (sumTokens es)"
      by blast
    ultimately show ?thesis using step mem by (simp add: sumTokens_def)
  qed
qed

lemma windowed_windowed: "windowed now (cleanOldEntries now rl) = windowed now rl"
  by (simp add: windowed_def cleanOldEntries_def windowMs_def)

lemma sorted_windowed: "sorted (map timestamp (tokenUsage rl)) \<Longrightarrow> sorted (map timestamp (windowed now rl))"
  by (simp add: windowed_def sorted_filter)

lemma canMakeRequest_iff: "fst (canMakeRequest now t rl) \<longleftrightarrow> sumTokens (windowed now rl) + t \<le> maxTokens rl"
  by (simp add: canMakeRequest_def Let_def currentUsage_clean maxTokens_clean)

lemma getRequiredDelay_state: "snd (getRequiredDelay now t rl) = cleanOldEntries now rl"
  by (simp add: getRequiredDelay_def Let_def)

lemma getRequiredDelay_zero: "fst (getRequiredDelay now t rl) = 0 \<longleftrightarrow> fst (canMakeRequest now t rl)"
proof (cases "sumTokens (windowed now rl) + t \<le> maxTokens rl")
  case True
  then show ?thesis
    by (simp add: getRequiredDelay_def canMakeRequest_def Let_def currentUsage_clean maxTokens_clean)
next
  case False
  let ?d = "int (sumTokens (windowed now rl)) + int t - int (maxTokens rl)"
  let ?ts = "oldestRelevant (windowed now rl) ?d now"
  have d: "0 < ?d" using False by simp
  have "now - 60000 < ?ts"
    using oldestRelevant_cases [OF d, of "windowed now rl" now]
  proof
    assume "?ts = now \<and> int (sumTokens (windowed now rl)) < ?d"
    then show ?thesis by simp
  next
    assume "\<exists>k<length (windowed now rl). ?ts = timestamp (windowed now rl ! k)
        \<and> ?d \<le> int (sumTokens (take (Suc k) (windowed now rl))) \<and> int (sumTokens (take k (windowed now rl))) < ?d"
    then obtain k where k: "k < length (windowed now rl)" "?ts = timestamp (windowed now rl ! k)" by blast
    from k(1) have "windowed now rl ! k \<in> set (windowed now rl)" by simp
    then have "now - 60000 < timestamp (windowed now rl ! k)" by (simp add: windowed_def)
    with k(2) show ?thesis by simp
  qed
  then have "fst (getRequiredDelay now t rl) \<noteq> 0"
    using False
    by (simp add: getRequiredDelay_def Let_def currentUsage_clean maxTokens_clean tokenUsage_clean windowMs_def)
  then show ?thesis using False by (simp add: canMakeRequest_iff)
qed


lemma sumTokens_take_le: "sumTokens (take n es) \<le> sumTokens es"
proof -
  have "sumTokens (take n es) + sumTokens (drop n es) = sumTokens es"
    unfolding sumTokens_def by (metis append_take_drop_id map_append sum_list_append)
  then show ?thesis by simp
qed

lemma getRequiredDelay_prefix:
  assumes "\<not> fst (canMakeRequest now t rl)" and "t \<le> maxTokens rl"
  shows "\<exists>k < length (windowed now rl).
           fst (getRequiredDelay now t rl) = timestamp (windowed now rl ! k) + 60000 - now
         \<and> int (sumTokens (windowed now rl)) + int t - int (maxTokens rl)
             \<le> int (sumTokens (take (Suc k) (windowed now rl)))
         \<and> int (sumTokens (take k (windowed now rl)))
             < int (sumTokens (windowed now rl)) + int t - int (maxTokens rl)"
proof -
  let ?L = "windowed now rl"
  let ?d = "int (sumTokens ?L) + int t - int (maxTokens rl)"
  let ?ts = "oldestRelevant ?L ?d now"
  have over: "\<not> sumTokens ?L + t \<le> maxTokens rl" using assms(1) by (simp add: canMakeRequest_iff)
  then have d: "0 < ?d" by simp
  have delay: "fst (getRequiredDelay now t rl) = max 0 (60000 - (now - ?ts))"
    using over
    by (simp add: getRequiredDelay_def Let_def currentUsage_clean maxTokens_clean tokenUsage_clean windowMs_def)
  from oldestRelevant_cases [OF d, of ?L now] show ?thesis
  proof
    assume "?ts = now \<and> int (sumTokens ?L) < ?d"
    then show ?thesis using assms(2) by simp
  next
    assume "\<exists>k<length ?L. ?ts = timestamp (?L ! k)
        \<and> ?d \<le> int (sumTokens (take (Suc k) ?L)) \<and> int (sumTokens (take k ?L)) < ?d"
    then obtain k where k: "k < length ?L" "?ts = timestamp (?L ! k)"
       "?d \<le> int (sumTokens (take (Suc k) ?L))" "int (sumTokens (take k ?L)) < ?d" by blast
    from k(1) have "?L ! k \<in> set ?L" by simp
    then have "now - 60000 < timestamp (?L ! k)" by (simp add: windowed_def)
    then have "fst (getRequiredDelay now t rl) = timestamp (?L ! k) + 60000 - now"
      using delay k(2) by simp
    then show ?thesis using k by blast
  qed
qed

lemma getRequiredDelay_oversize:
  assumes "maxTokens rl < t"
  shows "fst (getRequiredDelay now t rl) = 60000"
proof -
  let ?L = "windowed now rl"
  let ?d = "int (sumTokens ?L) + int t - int (maxTokens rl)"
  let ?ts = "oldestRelevant ?L ?d now"
  have over: "\<not> sumTokens ?L + t \<le> maxTokens rl" using assms by simp
  have d: "0 < ?d" using assms by simp
  have big: "int (sumTokens ?L) < ?d" using assms by simp
  have delay: "fst (getRequiredDelay now t rl) = max 0 (60000 - (now - ?ts))"
    using over
    by (simp add: getRequiredDelay_def Let_def currentUsage_clean maxTokens_clean tokenUsage_clean windowMs_def)
  from oldestRelevant_cases [OF d, of ?L now] have "?ts = now"
  proof
    assume "?ts = now \<and> int (sumTokens ?L) < ?d"
    then show ?thesis by simp
  next
    assume "\<exists>k<length ?L. ?ts = timestamp (?L ! k)
        \<and> ?d \<le> int (sumTokens (take (Suc k) ?L)) \<and> int (sumTokens (take k ?L)) < ?d"
    then obtain k where "?d \<le> int (sumTokens (take (Suc k) ?L))" by blast
    moreover have "sumTokens (take (Suc k) ?L) \<le> sumTokens ?L" by (rule sumTokens_take_le)
    ultimately have False using big by linarith
    then show ?thesis ..
  qed
  with delay show ?thesis by simp
qed

lemma canMakeRequest_after_delay:
  assumes "sorted (map timestamp (tokenUsage rl))" and "t \<le> maxTokens rl"
  shows "fst (canMakeRequest (now + fst (getRequiredDelay now t rl)) t (snd (getRequiredDelay now t rl)))"
proof (cases "fst (canMakeRequest now t rl)")
  case True
  then have "fst (getRequiredDelay now t rl) = 0" by (simp add: getRequiredDelay_zero)
  then show ?thesis
    using True by (simp add: getRequiredDelay_state canMakeRequest_iff windowed_windowed maxTokens_clean)
next
  case False
  let ?L = "windowed now rl"
  let ?d = "int (sumTokens ?L) + int t - int (maxTokens rl)"
  let ?ts = "oldestRelevant ?L ?d now"
  have over: "\<not> sumTokens ?L + t \<le> maxTokens rl" using False by (simp add: canMakeRequest_iff)
  then have d: "0 < ?d" by simp
  have cover: "?d \<le> int (sumTokens ?L)" using assms(2) by simp
  have srt: "sorted (map timestamp ?L)" using assms(1) by (rule sorted_windowed)
  from oldestRelevant_frees [OF srt d cover, of now]
  have mem: "?ts \<in> timestamp ` set ?L"
    and free: "int (sumTokens (filter (\<lambda>entry. ?ts < timestamp entry) ?L)) + ?d \<le> int (sumTokens ?L)"
    by blast+
  from mem have "now - 60000 < ?ts" by (auto simp: windowed_def)
  moreover have "fst (getRequiredDelay now t rl) = max 0 (60000 - (now - ?ts))"
    using over
    by (simp add: getRequiredDelay_def Let_def currentUsage_clean maxTokens_clean tokenUsage_clean windowMs_def)
  ultimately have delay: "now + fst (getRequiredDelay now t rl) = ?ts + 60000" by simp
  have "windowed (?ts + 60000) (cleanOldEntries now rl) = filter (\<lambda>entry. ?ts < timestamp entry) ?L"
    by (simp add: windowed_def tokenUsage_clean [unfolded windowed_def])
  then have "sumTokens (windowed (?ts + 60000) (cleanOldEntries now rl)) + t \<le> maxTokens rl"
    using free by simp
  then show ?thesis
    unfolding delay getRequiredDelay_state by (simp add: canMakeRequest_iff maxTokens_clean)
qed

lemma recordUsage_sorted:
  assumes "sorted (map timestamp (tokenUsage rl))" and "\<forall>entry \<in> set (tokenUsage rl). timestamp entry \<le> now"
  shows "sorted (map timestamp (tokenUsage (recordUsage now n rl)))"
proof -
  have "sorted (map timestamp (tokenUsage rl @ [\<lparr> timestamp = now, tokens = n \<rparr>]))"
    using assms by (simp add: sorted_append)
  then have "sorted (map timestamp (filter (\<lambda>entry. now - windowMs < timestamp entry)
      (tokenUsage rl @ [\<lparr> timestamp = now, tokens = n \<rparr>])))"
    by (rule sorted_filter)
  then show ?thesis
    by (simp add: recordUsage_def cleanOldEntries_def Let_def)
qed


text \<open>
  C4 (as amended).  \<open>canMakeRequest t\<close> holds iff the tokens recorded within the last 60
  seconds plus \<open>t\<close> are at most the budget; \<open>getRequiredDelay t\<close> is 0 in exactly that
  case.  Otherwise, for \<open>t\<close> within the budget, the delay is the time until the entry
  closing the shortest prefix of the log that covers the deficit leaves the window, and for
  \<open>t\<close> above the budget it is the full window.  For a log in recording order and \<open>t\<close>
  within the budget, \<open>canMakeRequest t\<close> holds after that delay; so with a budget of at
  least 1 filled exactly, \<open>canMakeRequest 1\<close> fails now and holds after the delay.
\<close>

theorem rate_limiter_conservation:
  assumes "sorted (map timestamp (tokenUsage rl))"
  shows "(fst (canMakeRequest now t rl) \<longleftrightarrow> sumTokens (windowed now rl) + t \<le> maxTokens rl)
   \<and> (fst (getRequiredDelay now t rl) = 0 \<longleftrightarrow> fst (canMakeRequest now t rl))
   \<and> (\<not> fst (canMakeRequest now t rl) \<and> t \<le> maxTokens rl \<longrightarrow>
        (\<exists>k < length (windowed now rl).
           fst (getRequiredDelay now t rl) = timestamp (windowed now rl ! k) + 60000 - now
         \<and> int (sumTokens (windowed now rl)) + int t - int (maxTokens rl)
             \<le> int (sumTokens (take (Suc k) (windowed now rl)))
         \<and> int (sumTokens (take k (windowed now rl)))
             < int (sumTokens (windowed now rl)) + int t - int (maxTokens rl)))
   \<and> (maxTokens rl < t \<longrightarrow> fst (getRequiredDelay now t rl) = 60000)
   \<and> (t \<le> maxTokens rl \<longrightarrow>
        fst (canMakeRequest (now + fst (getRequiredDelay now t rl)) t
              (snd (getRequiredDelay now t rl))))
   \<and> (sumTokens (windowed now rl) = maxTokens rl \<and> 1 \<le> maxTokens rl \<longrightarrow>
        \<not> fst (canMakeRequest now 1 rl)
        \<and> fst (canMakeRequest (now + fst (getRequiredDelay now 1 rl)) 1
              (snd (getRequiredDelay now 1 rl))))"
proof -
  have full: "\<not> fst (canMakeRequest now 1 rl)
        \<and> fst (canMakeRequest (now + fst (getRequiredDelay now 1 rl)) 1
              (snd (getRequiredDelay now 1 rl)))"
    if "sumTokens (windowed now rl) = maxTokens rl" and "1 \<le> maxTokens rl"
    using that canMakeRequest_after_delay [OF assms, of 1 now]
    by (simp add: canMakeRequest_iff)
  show ?thesis
    using canMakeRequest_iff [of now t rl] getRequiredDelay_zero [of now t rl]
      getRequiredDelay_prefix [of now t rl] getRequiredDelay_oversize [of rl t now]
      canMakeRequest_after_delay [OF assms, of t now] full
    by blast
qed

lemma example_limiter_log:
  "tokenUsage example_limiter
     = [\<lparr> timestamp = 1000, tokens = 6 \<rparr>, \<lparr> timestamp = 2000, tokens = 4 \<rparr>]"
  "maxTokens example_limiter = 10"
  by (simp_all add: example_limiter_def recordUsage_def cleanOldEntries_def
      newTokenRateLimiter_def windowMs_def)

theorem rate_limiter_conservation_witness:
  "sorted (map timestamp (tokenUsage example_limiter))
   \<and> sumTokens (windowed 3000 example_limiter) = maxTokens example_limiter
   \<and> 1 \<le> maxTokens example_limiter
   \<and> \<not> fst (canMakeRequest 3000 1 example_limiter)
   \<and> fst (getRequiredDelay 3000 1 example_limiter) = 58000
   \<and> fst (canMakeRequest (3000 + fst (getRequiredDelay 3000 1 example_limiter)) 1
            (snd (getRequiredDelay 3000 1 example_limiter)))"
proof -
  have srt: "sorted (map timestamp (tokenUsage example_limiter))"
    by (simp add: example_limiter_log)
  have full: "sumTokens (windowed 3000 example_limiter) = maxTokens example_limiter"
    by (simp add: windowed_def sumTokens_def example_limiter_log)
  have budget: "1 \<le> maxTokens example_limiter"
    by (simp add: example_limiter_log)
  have delay: "fst (getRequiredDelay 3000 1 example_limiter) = 58000"
    by (simp add: getRequiredDelay_def cleanOldEntries_def currentUsage_def Let_def
        example_limiter_log windowMs_def)
  show ?thesis
    using rate_limiter_conservation [OF srt, of 3000 1] full budget delay srt
    by blast
qed

lemma example_limiter0_log:
  "tokenUsage example_limiter0 = [\<lparr> timestamp = 1000, tokens = 0 \<rparr>]"
  "maxTokens example_limiter0 = 0"
  by (simp_all add: example_limiter0_def recordUsage_def cleanOldEntries_def
      newTokenRateLimiter_def windowMs_def)

text \<open>
  With a budget of 0 and a usage of 0 tokens recorded 500 ms ago the recorded usages sum
  to the budget, no prefix of the log covers the deficit of 1, the delay is the full window,
  and \<open>canMakeRequest 1\<close> still fails after it.
\<close>

theorem rate_limiter_conservation_counterexample:
  "sumTokens (windowed 1500 example_limiter0) = maxTokens example_limiter0
   \<and> \<not> fst (canMakeRequest 1500 1 example_limiter0)
   \<and> fst (getRequiredDelay 1500 1 example_limiter0) = 60000
   \<and> \<not> fst (canMakeRequest (1500 + fst (getRequiredDelay 1500 1 example_limiter0)) 1
              (snd (getRequiredDelay 1500 1 example_limiter0)))"
proof -
  have delay: "fst (getRequiredDelay 1500 1 example_limiter0) = 60000"
    by (simp add: getRequiredDelay_def cleanOldEntries_def currentUsage_def Let_def
        example_limiter0_log windowMs_def)
  have after: "\<not> fst (canMakeRequest 61500 1 (snd (getRequiredDelay 1500 1 example_limiter0)))"
    by (simp add: canMakeRequest_def getRequiredDelay_def cleanOldEntries_def currentUsage_def
        Let_def example_limiter0_log windowMs_def)
  have "sumTokens (windowed 1500 example_limiter0) = maxTokens example_limiter0"
    by (simp add: windowed_def sumTokens_def example_limiter0_log)
  moreover have "\<not> fst (canMakeRequest 1500 1 example_limiter0)"
    by (simp add: canMakeRequest_def cleanOldEntries_def currentUsage_def Let_def
        example_limiter0_log windowMs_def)
  ultimately show ?thesis using delay after by simp
qed

subsection \<open>Retry merge\<close>

lemma find_app:
  "find P (xs @ ys) = (case find P xs of None \<Rightarrow> find P ys | Some x \<Rightarrow> Some x)"
  by (induction xs) auto

lemma Map_get_empty: "Map_get [] k = None"
  by (simp add: Map_get_def)

lemma setByKey_get:
  "Map_get (setByKey es m) k = (case lastWithKey es k of Some e \<Rightarrow> Some e | None \<Rightarrow> Map_get m k)"
proof (induction es arbitrary: m)
  case Nil
  then show ?case by (simp add: setByKey_def lastWithKey_def)
next
  case (Cons e es)
  have "Map_get (setByKey (e # es) m) k = Map_get (setByKey es (Map_set (key e) e m)) k"
    by (simp add: setByKey_def)
  also have "\<dots> = (case lastWithKey es k of Some e' \<Rightarrow> Some e'
                    | None \<Rightarrow> Map_get (Map_set (key e) e m) k)"
    by (rule Cons.IH)
  also have "\<dots> = (case lastWithKey (e # es) k of Some e' \<Rightarrow> Some e' | None \<Rightarrow> Map_get m k)"
    by (auto simp: lastWithKey_def Map_set_get find_app split: option.splits)
  finally show ?case .
qed

lemma setByKey_distinct: "distinct (Map_keys m) \<Longrightarrow> distinct (Map_keys (setByKey es m))"
  by (induction es arbitrary: m) (simp_all add: setByKey_def Map_set_distinct)

lemma setByKey_keyed:
  "\<forall>p \<in> set m. key (snd p) = fst p \<Longrightarrow> \<forall>p \<in> set (setByKey es m). key (snd p) = fst p"
proof (induction es arbitrary: m)
  case Nil
  then show ?case by (simp add: setByKey_def)
next
  case (Cons e es)
  have "\<forall>p \<in> set (Map_set (key e) e m). key (snd p) = fst p"
    using Cons.prems by (rule Map_set_keyed) simp
  then have "\<forall>p \<in> set (setByKey es (Map_set (key e) e m)). key (snd p) = fst p"
    by (rule Cons.IH)
  then show ?case by (simp add: setByKey_def)
qed

lemma find_values_keyed:
  "\<forall>p \<in> set m. f (snd p) = fst p \<Longrightarrow> find (\<lambda>e. f e = k) (Map_values m) = Map_get m k"
  by (induction m) (auto simp: Map_values_def Map_get_def)

text \<open>
  C2.  When a prior result table is supplied, the final table holds, for each key, the entry
  of the new run if the new run has that key, and the prior entry otherwise; each key occurs
  once.  In particular a key absent from the new run keeps its prior entry.
\<close>

theorem retry_merge_last_write_wins:
  "entryFor (mergePreviousResults (Some prev) new) k =
     (case lastWithKey (entries new) k of
        Some e \<Rightarrow> Some e
      | None \<Rightarrow> lastWithKey (entries prev) k)
   \<and> distinct (map key (entries (mergePreviousResults (Some prev) new)))
   \<and> (k \<notin> key ` set (entries new) \<longrightarrow>
        entryFor (mergePreviousResults (Some prev) new) k = lastWithKey (entries prev) k)"
proof -
  let ?m = "setByKey (entries new) (setByKey (entries prev) [])"
  have keyed: "\<forall>p \<in> set ?m. key (snd p) = fst p"
    by (intro setByKey_keyed) simp
  have get: "Map_get ?m k = (case lastWithKey (entries new) k of Some e \<Rightarrow> Some e
                            | None \<Rightarrow> lastWithKey (entries prev) k)"
    by (simp add: setByKey_get Map_get_empty split: option.splits)
  have lookup: "entryFor (mergePreviousResults (Some prev) new) k = Map_get ?m k"
    using find_values_keyed [OF keyed] by (simp add: entryFor_def mergePreviousResults_def)
  have "distinct (Map_keys ?m)"
    by (intro setByKey_distinct) (simp add: Map_keys_def)
  moreover have "map key (Map_values ?m) = Map_keys ?m"
    using keyed by (simp add: Map_values_def Map_keys_def)
  ultimately have dist: "distinct (map key (entries (mergePreviousResults (Some prev) new)))"
    by (simp add: mergePreviousResults_def)
  have absent: "lastWithKey (entries new) k = None" if "k \<notin> key ` set (entries new)"
    using that by (auto simp: lastWithKey_def find_None_iff)
  show ?thesis using lookup get dist absent by simp
qed

theorem retry_merge_last_write_wins_witness:
  "js ''a'' \<notin> key ` set (entries example_retry)
   \<and> entryFor (mergePreviousResults (Some example_prior) example_retry) (js ''a'')
       = Some (example_entry ''a'' ''X'')
   \<and> entries (mergePreviousResults (Some example_prior) example_retry)
       = [example_entry ''a'' ''X'', example_entry ''b'' ''Y'']"
proof -
  have absent: "js ''a'' \<notin> key ` set (entries example_retry)"
    by (simp add: example_retry_def example_entry_def js_def)
  have prior: "lastWithKey (entries example_prior) (js ''a'') = Some (example_entry ''a'' ''X'')"
    by (simp add: lastWithKey_def example_prior_def example_entry_def js_def)
  have merged: "entries (mergePreviousResults (Some example_prior) example_retry)
       = [example_entry ''a'' ''X'', example_entry ''b'' ''Y'']"
    by (simp add: mergePreviousResults_def setByKey_def Map_values_def example_prior_def
        example_retry_def example_entry_def js_def)
  have "entryFor (mergePreviousResults (Some example_prior) example_retry) (js ''a'')
        = lastWithKey (entries example_prior) (js ''a'')"
    using retry_merge_last_write_wins [of example_prior example_retry "js ''a''"] absent
    by blast
  then show ?thesis
    using absent prior merged by simp
qed

subsection \<open>Backoff\<close>

lemma translateWithRetry_trace:
  "\<exists>k. snd (translateWithRetry request jitter parse a slept)
         = slept @ map (\<lambda>n. calculateBackoffDelay (int n) (jitter n)) [a..<a + k]
       \<and> a + k \<le> max a (Suc rateLimitRetries)
       \<and> (\<forall>n. a \<le> n \<and> n < a + k \<longrightarrow> (\<exists>e. request n = Inl e \<and> isRateLimitError e))"
proof (induction request jitter parse a slept rule: translateWithRetry.induct)
  case (1 request jitter parse attempt slept)
  show ?case
  proof (cases "request attempt")
    case (Inr response)
    then have "snd (translateWithRetry request jitter parse attempt slept) = slept"
      by (simp add: translateWithRetry.simps [of request jitter parse attempt slept])
    then show ?thesis by (intro exI [of _ 0]) auto
  next
    case (Inl e)
    show ?thesis
    proof (cases "isRateLimitError e \<and> attempt \<le> rateLimitRetries")
      case False
      with Inl have "snd (translateWithRetry request jitter parse attempt slept) = slept"
        by (auto simp: translateWithRetry.simps [of request jitter parse attempt slept])
      then show ?thesis by (intro exI [of _ 0]) auto
    next
      case True
      let ?d = "calculateBackoffDelay (int attempt) (jitter attempt)"
      from "1.IH" [OF Inl True] obtain k where
        k: "snd (translateWithRetry request jitter parse (attempt + 1) (slept @ [?d]))
              = (slept @ [?d]) @ map (\<lambda>n. calculateBackoffDelay (int n) (jitter n)) [attempt + 1..<attempt + 1 + k]"
           "attempt + 1 + k \<le> max (attempt + 1) (Suc rateLimitRetries)"
           "\<forall>n. attempt + 1 \<le> n \<and> n < attempt + 1 + k \<longrightarrow> (\<exists>e. request n = Inl e \<and> isRateLimitError e)"
        by blast
      have step: "translateWithRetry request jitter parse attempt slept
                  = translateWithRetry request jitter parse (attempt + 1) (slept @ [?d])"
        using Inl True by (simp add: translateWithRetry.simps [of request jitter parse attempt slept])
      have "[attempt..<attempt + Suc k] = attempt # [attempt + 1..<attempt + 1 + k]"
        by (simp add: upt_conv_Cons)
      then have "snd (translateWithRetry request jitter parse attempt slept)
            = slept @ map (\<lambda>n. calculateBackoffDelay (int n) (jitter n)) [attempt..<attempt + Suc k]"
        using k(1) step by simp
      moreover have "attempt + Suc k \<le> max attempt (Suc rateLimitRetries)"
        using k(2) True by simp
      moreover have "\<forall>n. attempt \<le> n \<and> n < attempt + Suc k \<longrightarrow> (\<exists>e. request n = Inl e \<and> isRateLimitError e)"
      proof (intro allI impI)
        fix n assume n: "attempt \<le> n \<and> n < attempt + Suc k"
        show "\<exists>e. request n = Inl e \<and> isRateLimitError e"
        proof (cases "n = attempt")
          case True
          then show ?thesis using Inl \<open>isRateLimitError e \<and> attempt \<le> rateLimitRetries\<close> by simp
        next
          case False
          with n have "attempt + 1 \<le> n \<and> n < attempt + 1 + k" by simp
          with k(3) show ?thesis by blast
        qed
      qed
      ultimately show ?thesis by (intro exI [of _ "Suc k"]) blast
    qed
  qed
qed

text \<open>
  C9.  For every attempt \<open>n \<ge> 1\<close> and jitter \<open>j\<close> in \<open>[0, 1000)\<close> the backoff delay is
  \<open>min (2000 * 2^(n-1) + j, 30000)\<close> milliseconds.  A run of \<open>translateWithRetry\<close>
  sleeps the backoff delays of attempts \<open>1..k\<close> for some \<open>k \<le> 3\<close>, and each of these
  attempts failed with an error classified as a rate-limit error.
\<close>

theorem backoff_delay_formula:
  assumes "1 \<le> n" and "0 \<le> j" and "j < 1000"
  shows "calculateBackoffDelay n j = min (2000 * 2 ^ nat (n - 1) + j) 30000
       \<and> (\<exists>k \<le> 3. snd (translateWithRetry request jitter parse 1 [])
                     = map (\<lambda>a. calculateBackoffDelay (int a) (jitter a)) [1..<1 + k]
                 \<and> (\<forall>a. 1 \<le> a \<and> a \<le> k \<longrightarrow> (\<exists>e. request a = Inl e \<and> isRateLimitError e)))"
proof -
  have "calculateBackoffDelay n j = min (2000 * 2 ^ nat (n - 1) + j) 30000"
    using assms(1) by (simp add: calculateBackoffDelay_def initialRetryDelay_def pow2_def)
  moreover obtain k where
    k: "snd (translateWithRetry request jitter parse 1 [])
          = [] @ map (\<lambda>a. calculateBackoffDelay (int a) (jitter a)) [1..<1 + k]"
       "1 + k \<le> max 1 (Suc rateLimitRetries)"
       "\<forall>a. 1 \<le> a \<and> a < 1 + k \<longrightarrow> (\<exists>e. request a = Inl e \<and> isRateLimitError e)"
    using translateWithRetry_trace [of request jitter parse 1 "[]"] by blast
  have "k \<le> 3" using k(2) by (simp add: rateLimitRetries_def)
  moreover have "\<forall>a. 1 \<le> a \<and> a \<le> k \<longrightarrow> (\<exists>e. request a = Inl e \<and> isRateLimitError e)"
    using k(3) by auto
  ultimately show ?thesis using k(1) by auto
qed

theorem backoff_delay_formula_witness:
  "(1::int) \<le> 3 \<and> (0::real) \<le> 250 \<and> (250::real) < 1000
   \<and> calculateBackoffDelay 3 250 = 8250
   \<and> snd (translateWithRetry example_request (\<lambda>n. 500) example_parse 1 []) = [2500, 4500]
   \<and> (\<exists>k \<le> 3. snd (translateWithRetry example_request (\<lambda>n. 500) example_parse 1 [])
                     = map (\<lambda>a. calculateBackoffDelay (int a) 500) [1..<1 + k]
                 \<and> (\<forall>a. 1 \<le> a \<and> a \<le> k \<longrightarrow>
                        (\<exists>e. example_request a = Inl e \<and> isRateLimitError e)))"
proof -
  have run: "snd (translateWithRetry example_request (\<lambda>n. 500) example_parse 1 []) = [2500, 4500]"
    by (simp add: translateWithRetry.simps example_request_def isRateLimitError_def js_def
        rateLimitRetries_def calculateBackoffDelay_def initialRetryDelay_def pow2_def)
  show ?thesis
    using backoff_delay_formula [of 3 250 example_request "\<lambda>n. 500" example_parse] run
    by simp
qed

subsection \<open>CSV escaping and parsing\<close>

lemma str_includes_single: "str_includes s [c] \<longleftrightarrow> c \<in> set s"
proof (induction s)
  case Nil
  show ?case by simp
next
  case (Cons a s)
  have "startsWith (a # s) [c] \<longleftrightarrow> a = c" by simp
  with Cons show ?case by auto
qed

lemma trim_id: "noOuterWhiteSpace f \<Longrightarrow> trim f = f"
proof (cases f)
  case Nil
  then show ?thesis by (simp add: trim_def trimStart_def trimEnd_def)
next
  case (Cons c cs)
  assume "noOuterWhiteSpace f"
  with Cons have hd: "\<not> isWhiteSpace c" and lst: "\<not> isWhiteSpace (last (c # cs))"
    by (simp_all add: noOuterWhiteSpace_def)
  have "rev (c # cs) = last (c # cs) # rev (butlast (c # cs))"
    by (metis append_butlast_last_id list.distinct(1) rev.simps(2) rev_append rev_rev_ident
        append_Cons append_Nil rev_singleton_conv)
  then have "dropWhile isWhiteSpace (rev (c # cs)) = rev (c # cs)"
    using lst by simp
  then show ?thesis
    using Cons hd by (simp add: trim_def trimStart_def trimEnd_def)
qed

lemma parseCSVLoop_plain:
  "QUOTE \<notin> set f \<Longrightarrow> COMMA \<notin> set f \<Longrightarrow>
   parseCSVLoop (f @ rest) flds current False = parseCSVLoop rest flds (current @ f) False"
  by (induction f arbitrary: current) auto

lemma parseCSVLoop_quoted:
  "rest = [] \<or> hd rest \<noteq> QUOTE \<Longrightarrow>
   parseCSVLoop (doubleQuotes f @ QUOTE # rest) flds current True
     = parseCSVLoop rest flds (current @ f) False"
proof (induction f arbitrary: current)
  case Nil
  then show ?case by (cases rest) (auto simp: doubleQuotes_def)
next
  case (Cons c f)
  have IH: "parseCSVLoop (doubleQuotes f @ QUOTE # rest) flds (current @ [c]) True
     = parseCSVLoop rest flds ((current @ [c]) @ f) False"
    using Cons.prems by (rule Cons.IH)
  show ?case
  proof (cases "c = QUOTE")
    case True
    then have "doubleQuotes (c # f) @ QUOTE # rest
        = QUOTE # QUOTE # (doubleQuotes f @ QUOTE # rest)"
      by (simp add: doubleQuotes_def)
    then show ?thesis using IH True by simp
  next
    case False
    then have "doubleQuotes (c # f) @ QUOTE # rest = c # (doubleQuotes f @ QUOTE # rest)"
      by (simp add: doubleQuotes_def)
    then show ?thesis using IH False by simp
  qed
qed

lemma parseCSVLoop_escapeCSV:
  assumes "rest = [] \<or> hd rest \<noteq> QUOTE"
  shows "parseCSVLoop (escapeCSV f @ rest) flds current False
           = parseCSVLoop rest flds (current @ f) False"
proof (cases "COMMA \<in> set f \<or> LF \<in> set f \<or> QUOTE \<in> set f")
  case True
  then have "escapeCSV f @ rest = QUOTE # (doubleQuotes f @ QUOTE # rest)"
    by (simp add: escapeCSV_def str_includes_single)
  then show ?thesis using parseCSVLoop_quoted [OF assms] by simp
next
  case False
  then have "escapeCSV f = f" by (simp add: escapeCSV_def str_includes_single)
  then show ?thesis using False parseCSVLoop_plain by simp
qed

lemma parseCSVLoop_join:
  "parseCSVLoop (join [COMMA] (map escapeCSV (f # fs))) flds [] False
     = (flds @ butlast (f # fs), last (f # fs))"
proof (induction fs arbitrary: f flds)
  case Nil
  have "parseCSVLoop (escapeCSV f @ []) flds [] False = parseCSVLoop [] flds ([] @ f) False"
    by (rule parseCSVLoop_escapeCSV) simp
  then show ?case by simp
next
  case (Cons g gs)
  have "parseCSVLoop (escapeCSV f @ (COMMA # join [COMMA] (map escapeCSV (g # gs)))) flds [] False
      = parseCSVLoop (COMMA # join [COMMA] (map escapeCSV (g # gs))) flds ([] @ f) False"
    by (rule parseCSVLoop_escapeCSV) simp
  also have "\<dots> = parseCSVLoop (join [COMMA] (map escapeCSV (g # gs))) (flds @ [f]) [] False"
    by simp
  also have "\<dots> = ((flds @ [f]) @ butlast (g # gs), last (g # gs))"
    by (rule Cons.IH)
  finally show ?case by simp
qed

text \<open>
  C10 (as amended).  For every non-empty list of fields without leading or trailing white
  space, escaping each field, joining with commas and parsing the line with
  \<open>parseCSVLine\<close> gives the fields back; so does the row built for an entry.
\<close>

theorem csv_escape_parse_roundtrip:
  assumes "flds \<noteq> []" and "\<forall>f \<in> set flds. noOuterWhiteSpace f"
  shows "parseCSVLine (join [COMMA] (map escapeCSV flds)) = flds"
proof -
  obtain f fs where flds: "flds = f # fs" using assms(1) by (cases flds) auto
  have "parseCSVLoop (join [COMMA] (map escapeCSV flds)) [] [] False
          = (butlast flds, last flds)"
    unfolding flds using parseCSVLoop_join [of f fs "[]"] by simp
  then have "parseCSVLine (join [COMMA] (map escapeCSV flds))
          = map trim (butlast flds @ [last flds])"
    by (simp add: parseCSVLine_def)
  also have "butlast flds @ [last flds] = flds"
    using assms(1) by simp
  also have "map trim flds = flds"
    using assms(2) by (simp add: trim_id map_idI)
  finally show ?thesis .
qed

theorem csv_escape_parse_roundtrip_witness:
  "[js ''menu.settings'', js ''a, b'', 34 # js ''hi''] \<noteq> []
   \<and> noOuterWhiteSpace (js ''menu.settings'') \<and> noOuterWhiteSpace (js ''a, b'')
   \<and> noOuterWhiteSpace (34 # js ''hi'')
   \<and> join [COMMA] (map escapeCSV [js ''menu.settings'', js ''a, b'', 34 # js ''hi''])
       = js ''menu.settings,'' @ [34] @ js ''a, b'' @ [34, 44, 34, 34, 34] @ js ''hi'' @ [34]
   \<and> parseCSVLine (join [COMMA] (map escapeCSV [js ''menu.settings'', js ''a, b'', 34 # js ''hi'']))
       = [js ''menu.settings'', js ''a, b'', 34 # js ''hi'']"
proof -
  have ws: "\<forall>f \<in> set [js ''menu.settings'', js ''a, b'', 34 # js ''hi'']. noOuterWhiteSpace f"
    by (simp add: noOuterWhiteSpace_def isWhiteSpace_def js_def)
  have row: "join [COMMA] (map escapeCSV [js ''menu.settings'', js ''a, b'', 34 # js ''hi''])
       = js ''menu.settings,'' @ [34] @ js ''a, b'' @ [34, 44, 34, 34, 34] @ js ''hi'' @ [34]"
    by (simp add: escapeCSV_def doubleQuotes_def js_def)
  show ?thesis
    using csv_escape_parse_roundtrip [OF _ ws] ws row by simp
qed

text \<open>The empty list of fields joins to the empty line, which parses to one empty field.\<close>

theorem csv_escape_parse_roundtrip_counterexample:
  "parseCSVLine (join [COMMA] (map escapeCSV [])) = [[]]
   \<and> parseCSVLine (join [COMMA] (map escapeCSV [])) \<noteq> []"
  by (simp add: parseCSVLine_def trim_def trimStart_def trimEnd_def)

subsection \<open>Engine\<close>





































text \<open>\<open>mergeTranslationResults\<close> writes the empty string into the column of a group whose
  table has no result for the record.\<close>

lemma merged_cells_empty:
  "map (\<lambda>e. Map_get (columns e) (js ''hi''))
     (entries (mergeTranslationResults example_entries example_groups
        [(js ''es'', [(js ''a'', errorResult (js ''network down'')),
                      (js ''b'', errorResult (js ''network down''))]),
         (js ''hi'', [])] True))
   = [Some [], Some []]"
  by (simp add: mergeTranslationResults_def mergeGroup_def setProperty_def example_entries_def
      example_entry_def example_groups_def example_group_def errorResult_def Map_get_def js_def)

subsection \<open>Response recovery\<close>

lemma firstResult_Some: "firstResult (Some r # steps) final = r"
  by simp



lemma example_acknowledged:
  "list_ex (\<lambda>pattern. rtest pattern (trim example_acknowledgment)) acknowledgmentPatterns"
proof -
  have "rtest (acknowledgmentPatterns ! 1) (trim example_acknowledgment)"
    by (simp add: acknowledgmentPatterns_def example_acknowledgment_def rx_eval)
  moreover have "acknowledgmentPatterns ! 1 \<in> set acknowledgmentPatterns"
    by (simp add: acknowledgmentPatterns_def)
  ultimately show ?thesis
    unfolding list_ex_iff by blast
qed

text \<open>
  C5 (as amended).  For every raw response that, trimmed, matches one of the acknowledgment
  patterns, \<open>parseWithFallbacks\<close> returns the sentinel with translation \<open>[ERROR]\<close>,
  category \<open>Error\<close> and reasoning \<open>AI returned acknowledgment text instead of translation -
  likely missing CSV data\<close>, whatever the later steps would make of the text.
\<close>

theorem acknowledgment_rejected:
  assumes "list_ex (\<lambda>pattern. rtest pattern (trim response)) acknowledgmentPatterns"
  shows "parseWithFallbacks parseRow response text targetLanguage
         = \<lparr> translation = js ''[ERROR]'', category = js ''Error'',
             reasoning = js ''AI returned acknowledgment text instead of translation - likely missing CSV data'' \<rparr>"
proof -
  have "acknowledgmentStep response
        = Some \<lparr> translation = js ''[ERROR]'', category = js ''Error'',
             reasoning = js ''AI returned acknowledgment text instead of translation - likely missing CSV data'' \<rparr>"
    using assms by (simp add: acknowledgmentStep_def)
  then show ?thesis
    by (simp add: parseWithFallbacks_def parseSteps_def)
qed

theorem acknowledgment_rejected_witness:
  "list_ex (\<lambda>pattern. rtest pattern (trim example_acknowledgment)) acknowledgmentPatterns
   \<and> parseWithFallbacks example_parseRow example_acknowledgment (js ''Settings'') (Some (js ''Hindi''))
       = \<lparr> translation = js ''[ERROR]'', category = js ''Error'',
           reasoning = js ''AI returned acknowledgment text instead of translation - likely missing CSV data'' \<rparr>"
  using acknowledgment_rejected [OF example_acknowledged, of example_parseRow "js ''Settings''"
      "Some (js ''Hindi'')"] example_acknowledged
  by simp

text \<open>The reasoning of the sentinel is longer than the text \<open>AI returned acknowledgment text
  instead of translation\<close>.\<close>

theorem acknowledgment_rejected_counterexample:
  "reasoning (parseWithFallbacks example_parseRow example_acknowledgment (js ''Settings'')
               (Some (js ''Hindi'')))
   \<noteq> js ''AI returned acknowledgment text instead of translation''"
proof -
  have "acknowledgmentStep example_acknowledgment
        = Some \<lparr> translation = js ''[ERROR]'', category = js ''Error'',
             reasoning = js ''AI returned acknowledgment text instead of translation - likely missing CSV data'' \<rparr>"
    using example_acknowledged by (simp add: acknowledgmentStep_def)
  then have "reasoning (parseWithFallbacks example_parseRow example_acknowledgment (js ''Settings'')
               (Some (js ''Hindi'')))
       = js ''AI returned acknowledgment text instead of translation - likely missing CSV data''"
    by (simp add: parseWithFallbacks_def parseSteps_def)
  then show ?thesis by (simp add: js_def)
qed

lemma js_nonempty: "s \<noteq> [] \<Longrightarrow> js s \<noteq> []"
  by (simp add: js_def)





lemma length_toLowerCase: "length s \<le> length (toLowerCase s)"
proof (induction s)
  case Nil
  show ?case by (simp add: toLowerCase_def)
next
  case (Cons c s)
  have "1 \<le> length (lowerUnit c)" by (simp add: lowerUnit_def)
  with Cons show ?case by (simp add: toLowerCase_def)
qed

lemma settings_not_identical:
  assumes "length text = 9"
  shows "toLowerCase (js ''Settings'') \<noteq> toLowerCase text"
proof
  assume "toLowerCase (js ''Settings'') = toLowerCase text"
  then have "length (toLowerCase (js ''Settings'')) = length (toLowerCase text)" by simp
  moreover have "length (toLowerCase (js ''Settings'')) = 8"
    by (simp add: toLowerCase_def lowerUnit_def js_def)
  moreover have "9 \<le> length (toLowerCase text)"
    using length_toLowerCase [of "text"] assms by simp
  ultimately show False by simp
qed

lemma settings_checks:
  assumes "length text = 9"
  shows "validationChecks (js ''Settings'') text (js ''Hindi'')
         = ([js ''No Devanagari script detected for Hindi translation''], 50)"
proof -
  have c1: "check1 (js ''Settings'') ([], 100) = ([], 100)"
    by (simp add: check1_def js_def)
  have c2: "check2 (js ''Settings'') text ([], 100) = ([], 100)"
    using settings_not_identical [OF assms] by (simp add: check2_def)
  have c3: "check3explanatory (js ''Settings'') ([], 100) = ([], 100)"
    by (simp add: check3explanatory_def firstMatching_def validatorExplanatoryPatterns_def rx_eval)
  have c4: "check3failure (js ''Settings'') ([], 100) = ([], 100)"
    by (simp add: check3failure_def firstMatching_def failurePatterns_def rx_eval)
  have c5: "check4 (js ''Settings'') (js ''Hindi'') ([], 100)
            = ([js ''No Devanagari script detected for Hindi translation''], 50)"
    by (simp add: check4_def checkLanguageSpecific_def rx_eval)
  have c6: "check5 (js ''Settings'') st = st" for st
    by (simp add: check5_def js_def)
  have c7: "check6 (js ''Settings'') st = st" for st
    by (simp add: check6_def styleDescriptors_def rx_eval)
  show ?thesis
    by (simp only: validationChecks_def c1 c2 c3 c4 c5 c6 c7)
qed

lemma settings_validation:
  assumes "length text = 9"
  shows "validateTranslationResponse (js ''Settings'') text (js ''Hindi'')
         = \<lparr> isValid = True,
             issues = [js ''No Devanagari script detected for Hindi translation''],
             confidence = 50, suggestedFix = None \<rparr>"
proof -
  have "suggestFix [js ''No Devanagari script detected for Hindi translation''] = None"
    by (simp add: suggestFix_def js_def)
  then show ?thesis
    by (simp add: validateTranslationResponse_def settings_checks [OF assms])
qed

lemma settings_recovered:
  assumes "length text = 9"
  shows "parseWithFallbacks parseRow (js ''Settings'') text (Some (js ''Hindi''))
         = \<lparr> translation = js ''Settings'', category = js ''Unknown'',
             reasoning = js ''Direct response assumed as translation'' \<rparr>"
proof -
  have t: "trim (js ''Settings'') = js ''Settings''"
    by (simp add: rx_eval)
  have 1: "acknowledgmentStep (js ''Settings'') = None"
    by (simp add: acknowledgmentStep_def acknowledgmentPatterns_def rx_eval)
  have 2: "structureMentionStep (js ''Settings'') = None"
    by (simp add: structureMentionStep_def mentionsCSVStructure_def rx_eval)
  have 3: "parseAIResponse parseRow (js ''Settings'') = None"
    by (simp add: parseAIResponse_def preprocessResponse_def looksLikeHeader_def rx_eval)
  have 4: "extractionStep extractionPatterns (js ''Settings'') = None"
    by (simp add: extractionPatterns_def rx_eval)
  have 5: "explanatoryStep (js ''Settings'') text = None"
    by (simp add: explanatoryStep_def explanatoryPatterns_def rx_eval)
  have 6: "malformedCSVStep (js ''Settings'') text = None"
    by (simp add: malformedCSVStep_def rx_eval)
  have "\<not> str_includes (js ''Settings'') [44]"
    by (simp add: js_def)
  then have 7: "validationStep (js ''Settings'') text (Some (js ''Hindi'')) = None"
    by (simp add: validationStep_def settings_validation [OF assms] js_nonempty)
  have "length (js ''Settings'') < length text * 3"
    using assms by (simp add: js_def)
  moreover have "\<not> str_includes (toLowerCase (js ''Settings'')) (js ''translate'')"
    "\<not> str_includes (toLowerCase (js ''Settings'')) (js ''csv'')"
    by (simp_all add: rx_eval)
  ultimately have 8: "directStep (js ''Settings'') text
      = Some \<lparr> translation = js ''Settings'', category = js ''Unknown'',
             reasoning = js ''Direct response assumed as translation'' \<rparr>"
    by (simp add: directStep_def)
  show ?thesis
    by (simp add: parseWithFallbacks_def parseSteps_def t 1 2 3 4 5 6 7 8)
qed

text \<open>
  C7 (as amended).  For the response \<open>Settings\<close>, target language \<open>Hindi\<close> and any source
  text of 9 code units the validator finds no Devanagari, takes the penalty of 50 and
  computes confidence exactly 50, which meets the threshold \<open>confidence >= 50\<close>: the
  response is judged valid and the recoverer returns \<open>Settings\<close> with category
  \<open>Unknown\<close> and reasoning \<open>Direct response assumed as translation\<close>.
\<close>

theorem hindi_settings_accepted:
  assumes "length text = 9"
  shows "confidence (validateTranslationResponse (js ''Settings'') text (js ''Hindi'')) = 50
       \<and> isValid (validateTranslationResponse (js ''Settings'') text (js ''Hindi''))
       \<and> issues (validateTranslationResponse (js ''Settings'') text (js ''Hindi''))
           = [js ''No Devanagari script detected for Hindi translation'']
       \<and> parseWithFallbacks parseRow (js ''Settings'') text (Some (js ''Hindi''))
           = \<lparr> translation = js ''Settings'', category = js ''Unknown'',
               reasoning = js ''Direct response assumed as translation'' \<rparr>"
  using settings_validation [OF assms] settings_recovered [OF assms] by simp

theorem hindi_settings_accepted_witness:
  "length (js ''Ajustes 1'') = 9
   \<and> confidence (validateTranslationResponse (js ''Settings'') (js ''Ajustes 1'') (js ''Hindi'')) = 50
   \<and> translation (parseWithFallbacks example_parseRow (js ''Settings'') (js ''Ajustes 1'')
                    (Some (js ''Hindi''))) = js ''Settings''"
proof -
  have len: "length (js ''Ajustes 1'') = 9" by (simp add: js_def)
  from hindi_settings_accepted [OF len, of example_parseRow] len show ?thesis by simp
qed

text \<open>With the source text \<open>Configure\<close> (9 code units) the confidence is not below 50, the
  response is valid and \<open>Settings\<close> is accepted with a category other than \<open>Error\<close>.\<close>

theorem hindi_settings_accepted_counterexample:
  "\<not> confidence (validateTranslationResponse (js ''Settings'') (js ''Configure'') (js ''Hindi'')) < 50
   \<and> isValid (validateTranslationResponse (js ''Settings'') (js ''Configure'') (js ''Hindi''))
   \<and> translation (parseWithFallbacks example_parseRow (js ''Settings'') (js ''Configure'')
                    (Some (js ''Hindi''))) = js ''Settings''
   \<and> category (parseWithFallbacks example_parseRow (js ''Settings'') (js ''Configure'')
                    (Some (js ''Hindi''))) \<noteq> js ''Error''"
proof -
  have len: "length (js ''Configure'') = 9" by (simp add: js_def)
  have "js ''Unknown'' \<noteq> js ''Error''" by (simp add: js_def)
  then show ?thesis
    using settings_validation [OF len] settings_recovered [OF len, of example_parseRow] by simp
qed

text \<open>\<open>preprocessResponse\<close> removes a code fence and bold markers, and a leading
  boilerplate phrase.\<close>

lemma preprocess_fenced:
  "preprocessResponse (BACKTICKS @ js ''csv'' @ [10] @ js ''k,**Hola**,c,r'' @ [10] @ BACKTICKS)
   = js ''k,Hola,c,r''"
  by (simp add: preprocessResponse_def rx_eval)

lemma preprocess_boilerplate:
  "preprocessResponse (js ''Here's the translation: Hola'') = js ''Hola''"
  by (simp add: preprocessResponse_def rx_eval)

text \<open>A short response that names a CSV column without a comma is answered by the
  structure-mention sentinel.\<close>

lemma structure_mention:
  "structureMentionStep (js ''Translation: Hola'')
   = Some \<lparr> translation = js ''[ERROR]'', category = js ''Error'',
              reasoning = js ''Response mentions CSV structure without providing actual CSV'' \<rparr>"
  by (simp add: structureMentionStep_def mentionsCSVStructure_def rx_eval)

text \<open>The style-descriptor response \<open>s concise\<close> loses 60 points to the failure pattern.\<close>

lemma style_descriptor_rejected:
  "validationChecks (js ''s concise'') (js ''Hello'') (js ''Spanish'')
   = ([js ''Response matches failure pattern: '' @ src ''/^s concise$/i''], 40)"
  by (simp add: validationChecks_def check1_def check2_def check3explanatory_def check3failure_def
      check4_def check5_def check6_def checkLanguageSpecific_def firstMatching_def
      validatorExplanatoryPatterns_def failurePatterns_def spanishWords_def styleDescriptors_def
      src_def rx_eval)

subsection \<open>Batch responses\<close>

















subsection \<open>Batch execution\<close>


text \<open>A well-formed single row is parsed structurally by \<open>parseCSVResponse\<close>: the quoted
  fields are unquoted and the key column is dropped.\<close>

lemma structural_parse_scenario:
  "parseCSVResponse example_parseRow
     (js ''greeting.hi,'' @ [34, 161] @ js ''Hola!'' @ [34] @ js '',Onboarding,'' @ [34]
        @ js ''Friendly greeting'' @ [34])
     (js ''greeting.hi'') (js ''Hi!'') (js ''Spanish'')
   = \<lparr> translation = 161 # js ''Hola!'', category = js ''Onboarding'',
       reasoning = js ''Friendly greeting'' \<rparr>"
  by (simp add: parseCSVResponse_def parseCSVLine_def nthField_def fieldOr_def rx_eval)

end
